theory Spec2Isabelle
  imports Complex_Main
begin

section \<open>Energy expressions\<close>

text \<open>
  A custom force is created from the text of an algebraic expression, which the engine
  parses and evaluates. The text is modelled by its syntax tree, every parenthesis and
  every numeric literal of the text included, so that \<open>render_expression\<close> gives the text
  back (blanks aside, which the engine's parser skips). An expression is a result followed
  by the definitions of intermediate values, separated by semicolons; an intermediate
  value is used before the place where it is defined.
\<close>

datatype expr =
    Num string
  | Var string
  | Paren expr
  | Sqrt expr
  | Pow expr expr
  | Mul expr expr
  | Div expr expr
  | Add expr expr
  | Sub expr expr

record expression =
  result :: expr
  intermediates :: "(string \<times> expr) list"

fun render :: "expr \<Rightarrow> string" where
  "render (Num t) = t"
| "render (Var v) = v"
| "render (Paren e) = ''('' @ render e @ '')''"
| "render (Sqrt e) = ''sqrt('' @ render e @ '')''"
| "render (Pow a b) = render a @ ''^'' @ render b"
| "render (Mul a b) = render a @ ''*'' @ render b"
| "render (Div a b) = render a @ ''/'' @ render b"
| "render (Add a b) = render a @ ''+'' @ render b"
| "render (Sub a b) = render a @ ''-'' @ render b"

definition render_expression :: "expression \<Rightarrow> string" where
  "render_expression ex =
     render (result ex) @ '';'' @
     concat (map (\<lambda>d. fst d @ ''='' @ render (snd d) @ '';'') (intermediates ex))"

text \<open>
  A tree is the parse of its text when no operand binds more loosely than its place
  allows without parentheses: powers bind tighter than products and quotients, which bind
  tighter than sums and differences, and operators of equal rank group to the left.
\<close>

fun rank :: "expr \<Rightarrow> nat" where
  "rank (Add a b) = 1"
| "rank (Sub a b) = 1"
| "rank (Mul a b) = 2"
| "rank (Div a b) = 2"
| "rank (Pow a b) = 3"
| "rank e = 4"

fun parsed :: "expr \<Rightarrow> bool" where
  "parsed (Num t) = (t \<noteq> [])"
| "parsed (Var v) = (v \<noteq> [])"
| "parsed (Paren e) = parsed e"
| "parsed (Sqrt e) = parsed e"
| "parsed (Pow a b) = (parsed a \<and> parsed b \<and> 4 \<le> rank a \<and> 4 \<le> rank b)"
| "parsed (Mul a b) = (parsed a \<and> parsed b \<and> 2 \<le> rank a \<and> 3 \<le> rank b)"
| "parsed (Div a b) = (parsed a \<and> parsed b \<and> 2 \<le> rank a \<and> 3 \<le> rank b)"
| "parsed (Add a b) = (parsed a \<and> parsed b \<and> 2 \<le> rank b)"
| "parsed (Sub a b) = (parsed a \<and> parsed b \<and> 2 \<le> rank b)"

definition parsed_expression :: "expression \<Rightarrow> bool" where
  "parsed_expression ex =
     (parsed (result ex) \<and> list_all (\<lambda>d. fst d \<noteq> [] \<and> parsed (snd d)) (intermediates ex))"

text \<open>
  The value of an expression. Floating-point numbers are modelled as reals; \<open>None\<close> is
  the value of an expression that has no finite real value: a variable that is not
  defined, a division by zero, the square root of a negative number, a negative number
  raised to a power that is not an integer, zero raised to a negative power. The engine
  computes an infinity or NaN there, and the expressions of the notebooks, with the
  parameter values that the notebooks register, then have an infinite value or NaN.
\<close>

definition digits_value :: "string \<Rightarrow> nat" where
  "digits_value t = foldl (\<lambda>n c. 10 * n + (of_char c - 48)) 0 t"

definition decimal :: "string \<Rightarrow> real" where
  "decimal t =
     (let whole = takeWhile (\<lambda>c. c \<noteq> CHR ''.'') t;
          fraction = drop 1 (dropWhile (\<lambda>c. c \<noteq> CHR ''.'') t)
      in real (digits_value whole) + real (digits_value fraction) / 10 ^ length fraction)"

definition pow_value :: "real \<Rightarrow> real \<Rightarrow> real option" where
  "pow_value x y =
     (if 0 < x then Some (x powr y)
      else if x = 0 then (if 0 < y then Some 0 else if y = 0 then Some 1 else None)
      else if y = of_int \<lfloor>y\<rfloor> then Some (power_int x \<lfloor>y\<rfloor>) else None)"

definition binary ::
  "(real \<Rightarrow> real \<Rightarrow> real option) \<Rightarrow> real option \<Rightarrow> real option \<Rightarrow> real option" where
  "binary f a b =
     (case a of None \<Rightarrow> None | Some x \<Rightarrow> (case b of None \<Rightarrow> None | Some y \<Rightarrow> f x y))"

fun expr_value :: "(string \<Rightarrow> real option) \<Rightarrow> expr \<Rightarrow> real option" where
  "expr_value env (Num t) = Some (decimal t)"
| "expr_value env (Var v) = env v"
| "expr_value env (Paren e) = expr_value env e"
| "expr_value env (Sqrt e) =
     (case expr_value env e of None \<Rightarrow> None | Some x \<Rightarrow> if x < 0 then None else Some (sqrt x))"
| "expr_value env (Pow a b) = binary pow_value (expr_value env a) (expr_value env b)"
| "expr_value env (Mul a b) = binary (\<lambda>x y. Some (x * y)) (expr_value env a) (expr_value env b)"
| "expr_value env (Div a b) =
     binary (\<lambda>x y. if y = 0 then None else Some (x / y)) (expr_value env a) (expr_value env b)"
| "expr_value env (Add a b) = binary (\<lambda>x y. Some (x + y)) (expr_value env a) (expr_value env b)"
| "expr_value env (Sub a b) = binary (\<lambda>x y. Some (x - y)) (expr_value env a) (expr_value env b)"

fun bind_intermediates ::
  "(string \<times> expr) list \<Rightarrow> (string \<Rightarrow> real option) \<Rightarrow> string \<Rightarrow> real option" where
  "bind_intermediates [] env = env"
| "bind_intermediates (d # rest) env =
     (let env = bind_intermediates rest env in env(fst d := expr_value env (snd d)))"

definition evaluate :: "(string \<Rightarrow> real option) \<Rightarrow> expression \<Rightarrow> real option" where
  "evaluate env ex = expr_value (bind_intermediates (intermediates ex) env) (result ex)"

section \<open>Data model: the interaction terms of a system\<close>

text \<open>
  The notebooks manipulate an engine-side system through its programming interface: a
  system is a list of forces; a NonbondedForce holds one (charge, sigma, epsilon) triple
  per particle, a list of exceptions (atom_i, atom_j, chargeprod, sigma, epsilon), a
  cutoff distance, a dispersion-correction flag, global parameters and parameter offsets;
  the custom forces hold an energy expression, their parameters, their force group and
  their particles, exclusions or bonds. Atom and exception indices are naturals (a
  negative index is not represented; the engine rejects it like any other index that is
  not a particle's), force groups are integers.
\<close>

datatype py_error =
  IndexError | NameError string | ValueError | AttributeError | FileNotFoundError string
  | OpenMMException | OverflowError

datatype nonbonded_method = NoCutoff | CutoffNonPeriodic | CutoffPeriodic | Ewald | PME

record NonbondedForce =
  nb_method :: nonbonded_method
  nb_particles :: "(real \<times> real \<times> real) list"
  nb_exceptions :: "(nat \<times> nat \<times> real \<times> real \<times> real) list"
  nb_cutoff :: real
  nb_dispersion :: bool
  nb_globals :: "(string \<times> real) list"
  nb_particle_offsets :: "(string \<times> nat \<times> real \<times> real \<times> real) list"
  nb_exception_offsets :: "(string \<times> nat \<times> real \<times> real \<times> real) list"

record CustomNonbondedForce =
  cn_energy :: expression
  cn_globals :: "(string \<times> real) list"
  cn_per_particle :: "string list"
  cn_cutoff :: real
  cn_method :: nonbonded_method
  cn_long_range :: bool
  cn_groups :: "(nat list \<times> nat list) list"
  cn_force_group :: int
  cn_particles :: "real list list"
  cn_exclusions :: "(nat \<times> nat) list"

record CustomBondForce =
  cb_energy :: expression
  cb_per_bond :: "string list"
  cb_force_group :: int
  cb_bonds :: "(nat \<times> nat \<times> real list) list"

datatype force =
    Nonbonded NonbondedForce
  | CustomNonbonded CustomNonbondedForce
  | CustomBond CustomBondForce
  | OtherForce string

type_synonym system = "force list"

subsection \<open>The engine interface used by the notebooks\<close>

text \<open>
  The engine's accessors take an index as a C int. The Python binding raises
  OverflowError for an integer that does not fit (2^31 or more), and the engine raises
  its own exception for an index that fits and is not the index of a particle or an
  exception. A force holds fewer than 2^31 particles and exceptions, so the test for an
  index of the force comes first below.
\<close>

definition index_error :: "nat \<Rightarrow> py_error" where
  "index_error i = (if i < 2 ^ 31 then OpenMMException else OverflowError)"

definition getNumParticles :: "NonbondedForce \<Rightarrow> nat" where
  "getNumParticles nonbonded = length (nb_particles nonbonded)"

definition getNumExceptions :: "NonbondedForce \<Rightarrow> nat" where
  "getNumExceptions nonbonded = length (nb_exceptions nonbonded)"

definition getParticleParameters ::
  "NonbondedForce \<Rightarrow> nat \<Rightarrow> py_error + (real \<times> real \<times> real)" where
  "getParticleParameters nonbonded atom_i =
     (if atom_i < length (nb_particles nonbonded)
      then Inr (nb_particles nonbonded ! atom_i) else Inl (index_error atom_i))"

definition setParticleParameters ::
  "NonbondedForce \<Rightarrow> nat \<Rightarrow> real \<Rightarrow> real \<Rightarrow> real \<Rightarrow> py_error + NonbondedForce" where
  "setParticleParameters nonbonded atom_i charge sigma epsilon =
     (if atom_i < length (nb_particles nonbonded)
      then Inr (nonbonded\<lparr>nb_particles :=
                  (nb_particles nonbonded)[atom_i := (charge, sigma, epsilon)]\<rparr>)
      else Inl (index_error atom_i))"

definition getExceptionParameters ::
  "NonbondedForce \<Rightarrow> nat \<Rightarrow> py_error + (nat \<times> nat \<times> real \<times> real \<times> real)" where
  "getExceptionParameters nonbonded exception_i =
     (if exception_i < length (nb_exceptions nonbonded)
      then Inr (nb_exceptions nonbonded ! exception_i) else Inl (index_error exception_i))"

definition setExceptionParameters ::
  "NonbondedForce \<Rightarrow> nat \<Rightarrow> nat \<Rightarrow> nat \<Rightarrow> real \<Rightarrow> real \<Rightarrow> real
     \<Rightarrow> py_error + NonbondedForce" where
  "setExceptionParameters nonbonded exception_i atom_i atom_j chargeprod sigma epsilon =
     (if exception_i < length (nb_exceptions nonbonded)
      then Inr (nonbonded\<lparr>nb_exceptions :=
                  (nb_exceptions nonbonded)
                    [exception_i := (atom_i, atom_j, chargeprod, sigma, epsilon)]\<rparr>)
      else Inl (index_error exception_i))"

definition addGlobalParameter :: "NonbondedForce \<Rightarrow> string \<Rightarrow> real \<Rightarrow> NonbondedForce" where
  "addGlobalParameter nonbonded name v =
     nonbonded\<lparr>nb_globals := nb_globals nonbonded @ [(name, v)]\<rparr>"

definition addParticleParameterOffset ::
  "NonbondedForce \<Rightarrow> string \<Rightarrow> nat \<Rightarrow> real \<Rightarrow> real \<Rightarrow> real \<Rightarrow> py_error + NonbondedForce" where
  "addParticleParameterOffset nonbonded name atom_i chargeScale sigmaScale epsilonScale =
     (if name \<in> fst ` set (nb_globals nonbonded)
      then Inr (nonbonded\<lparr>nb_particle_offsets := nb_particle_offsets nonbonded
                  @ [(name, atom_i, chargeScale, sigmaScale, epsilonScale)]\<rparr>)
      else Inl OpenMMException)"

definition addExceptionParameterOffset ::
  "NonbondedForce \<Rightarrow> string \<Rightarrow> nat \<Rightarrow> real \<Rightarrow> real \<Rightarrow> real \<Rightarrow> py_error + NonbondedForce" where
  "addExceptionParameterOffset nonbonded name exception_i chargeScale sigmaScale epsilonScale =
     (if name \<in> fst ` set (nb_globals nonbonded)
      then Inr (nonbonded\<lparr>nb_exception_offsets := nb_exception_offsets nonbonded
                  @ [(name, exception_i, chargeScale, sigmaScale, epsilonScale)]\<rparr>)
      else Inl OpenMMException)"

definition addParticle :: "CustomNonbondedForce \<Rightarrow> real list \<Rightarrow> CustomNonbondedForce" where
  "addParticle f ps = f\<lparr>cn_particles := cn_particles f @ [ps]\<rparr>"

definition addExclusion :: "CustomNonbondedForce \<Rightarrow> nat \<Rightarrow> nat \<Rightarrow> CustomNonbondedForce" where
  "addExclusion f atom_i atom_j = f\<lparr>cn_exclusions := cn_exclusions f @ [(atom_i, atom_j)]\<rparr>"

definition addBond :: "CustomBondForce \<Rightarrow> nat \<Rightarrow> nat \<Rightarrow> real list \<Rightarrow> CustomBondForce" where
  "addBond f atom_i atom_j ps = f\<lparr>cb_bonds := cb_bonds f @ [(atom_i, atom_j, ps)]\<rparr>"

definition addForce :: "system \<Rightarrow> force \<Rightarrow> system" where
  "addForce system f = system @ [f]"

text \<open>
  \<open>setForceGroup\<close> takes the group as a C int: the binding raises OverflowError for an
  integer that does not fit, and the engine raises its exception for a group outside
  0..31. A new force is in group 0.
\<close>

definition force_group_error :: "int \<Rightarrow> py_error option" where
  "force_group_error force_group =
     (if force_group < - (2 ^ 31) \<or> 2 ^ 31 \<le> force_group then Some OverflowError
      else if force_group < 0 \<or> 31 < force_group then Some OpenMMException
      else None)"

definition setForceGroup :: "CustomNonbondedForce \<Rightarrow> int \<Rightarrow> py_error + CustomNonbondedForce" where
  "setForceGroup f force_group =
     (case force_group_error force_group of
        Some e \<Rightarrow> Inl e
      | None \<Rightarrow> Inr (f\<lparr>cn_force_group := force_group\<rparr>))"

definition setForceGroup_bond :: "CustomBondForce \<Rightarrow> int \<Rightarrow> py_error + CustomBondForce" where
  "setForceGroup_bond f force_group =
     (case force_group_error force_group of
        Some e \<Rightarrow> Inl e
      | None \<Rightarrow> Inr (f\<lparr>cb_force_group := force_group\<rparr>))"

text \<open>
  Every operation starts with
  \<^verbatim>\<open>[force for force in system.getForces() if isinstance(force, NonbondedForce)][0]\<close>:
  the list of the system's NonbondedForce objects (\<open>nonbonded_forces\<close>), indexed at 0.
  An empty list raises IndexError. The object found is a reference into the system, so
  what the operation changes in it is changed in the system: \<open>put_nonbonded\<close> writes the
  changed object back at the place of the first NonbondedForce.
\<close>

fun nonbonded_forces :: "system \<Rightarrow> NonbondedForce list" where
  "nonbonded_forces [] = []"
| "nonbonded_forces (Nonbonded nb # fs) = nb # nonbonded_forces fs"
| "nonbonded_forces (f # fs) = nonbonded_forces fs"

definition get_nonbonded :: "system \<Rightarrow> py_error + NonbondedForce" where
  "get_nonbonded system =
     (case nonbonded_forces system of [] \<Rightarrow> Inl IndexError | nb # _ \<Rightarrow> Inr nb)"

fun put_nonbonded :: "NonbondedForce \<Rightarrow> system \<Rightarrow> system" where
  "put_nonbonded nb' [] = []"
| "put_nonbonded nb' (Nonbonded nb # fs) = Nonbonded nb' # fs"
| "put_nonbonded nb' (f # fs) = f # put_nonbonded nb' fs"

section \<open>The expressions of the notebooks\<close>

text \<open>
  The soft-core expression of \<open>add_LJ_scaling\<close>:
  \<^verbatim>\<open>(lambda_sterics^softcore_a)*4*epsilon*x*(x-1.0);\<close>
  \<^verbatim>\<open>x=(sigma/reff_sterics)^6;\<close>
  \<^verbatim>\<open>reff_sterics=sigma*((softcore_alpha*(1.0-lambda_sterics)^softcore_b+(r/sigma)^softcore_c))^(1/softcore_c);\<close>
  \<^verbatim>\<open>sigma=0.5*(sigma1+sigma2);\<close>
  \<^verbatim>\<open>epsilon=sqrt(epsilon1*epsilon2);\<close>
\<close>

definition softcore_LJ_expression :: expression where
  "softcore_LJ_expression =
     \<lparr>result =
        Mul (Mul (Mul (Mul (Paren (Pow (Var ''lambda_sterics'') (Var ''softcore_a'')))
                           (Num ''4''))
                      (Var ''epsilon''))
                 (Var ''x''))
            (Paren (Sub (Var ''x'') (Num ''1.0''))),
      intermediates =
        [(''x'', Pow (Paren (Div (Var ''sigma'') (Var ''reff_sterics''))) (Num ''6'')),
         (''reff_sterics'',
            Mul (Var ''sigma'')
                (Pow (Paren (Paren
                        (Add (Mul (Var ''softcore_alpha'')
                                  (Pow (Paren (Sub (Num ''1.0'') (Var ''lambda_sterics'')))
                                       (Var ''softcore_b'')))
                             (Pow (Paren (Div (Var ''r'') (Var ''sigma'')))
                                  (Var ''softcore_c'')))))
                     (Paren (Div (Num ''1'') (Var ''softcore_c''))))),
         (''sigma'', Mul (Num ''0.5'') (Paren (Add (Var ''sigma1'') (Var ''sigma2'')))),
         (''epsilon'', Sqrt (Mul (Var ''epsilon1'') (Var ''epsilon2'')))]\<rparr>"

text \<open>
  The Lennard-Jones expression of the CustomBondForce,
  \<^verbatim>\<open>4*epsilon*((sigma/r)^12 - (sigma/r)^6);\<close>, and the expression of \<open>create_custom_LJ\<close>,
  which is the same followed by
  \<^verbatim>\<open>sigma=0.5*(sigma1+sigma2);\<close> \<^verbatim>\<open>epsilon=sqrt(epsilon1*epsilon2);\<close>
\<close>

definition bond_LJ_expression :: expression where
  "bond_LJ_expression =
     \<lparr>result =
        Mul (Mul (Num ''4'') (Var ''epsilon''))
            (Paren (Sub (Pow (Paren (Div (Var ''sigma'') (Var ''r''))) (Num ''12''))
                        (Pow (Paren (Div (Var ''sigma'') (Var ''r''))) (Num ''6'')))),
      intermediates = []\<rparr>"

definition pair_LJ_expression :: expression where
  "pair_LJ_expression =
     \<lparr>result =
        Mul (Mul (Num ''4'') (Var ''epsilon''))
            (Paren (Sub (Pow (Paren (Div (Var ''sigma'') (Var ''r''))) (Num ''12''))
                        (Pow (Paren (Div (Var ''sigma'') (Var ''r''))) (Num ''6'')))),
      intermediates =
        [(''sigma'', Mul (Num ''0.5'') (Paren (Add (Var ''sigma1'') (Var ''sigma2'')))),
         (''epsilon'', Sqrt (Mul (Var ''epsilon1'') (Var ''epsilon2'')))]\<rparr>"

text \<open>
  The variables of an expression. In a CustomNonbondedForce the distance is \<open>r\<close>, a
  per-particle parameter \<open>p\<close> is \<open>p1\<close> for the first particle of the pair and \<open>p2\<close> for the
  second, and a global parameter has its value in the context. In a CustomBondForce the
  distance is \<open>r\<close> and a per-bond parameter has its own name. Any other name is not
  defined.
\<close>

definition pair_variables ::
  "string list \<Rightarrow> real list \<Rightarrow> real list \<Rightarrow> real \<Rightarrow> string \<Rightarrow> real option" where
  "pair_variables per_particle p1 p2 r =
     map_of ((''r'', r) # zip (map (\<lambda>p. p @ ''1'') per_particle) p1
                        @ zip (map (\<lambda>p. p @ ''2'') per_particle) p2)"

definition bond_variables :: "string list \<Rightarrow> real list \<Rightarrow> real \<Rightarrow> string \<Rightarrow> real option" where
  "bond_variables per_bond ps r = map_of ((''r'', r) # zip per_bond ps)"

text \<open>
  A context starts with every global parameter at the default its force registered;
  \<open>setParameter\<close> overwrites one value. \<open>parameter_values\<close> gives 0 for a name that no
  force registered; an expression reads a global parameter only if its force registered
  the name (\<open>pair_energy\<close>).
\<close>

definition parameter_values :: "(string \<times> real) list \<Rightarrow> string \<Rightarrow> real" where
  "parameter_values globals name = (case map_of globals name of Some v \<Rightarrow> v | None \<Rightarrow> 0)"

definition setParameter :: "(string \<Rightarrow> real) \<Rightarrow> string \<Rightarrow> real \<Rightarrow> string \<Rightarrow> real" where
  "setParameter P name v = P(name := v)"

definition pair_energy ::
  "CustomNonbondedForce \<Rightarrow> (string \<Rightarrow> real) \<Rightarrow> real list \<Rightarrow> real list \<Rightarrow> real \<Rightarrow> real option" where
  "pair_energy f P p1 p2 r =
     evaluate
       (\<lambda>v. case pair_variables (cn_per_particle f) p1 p2 r v of
              Some x \<Rightarrow> Some x
            | None \<Rightarrow> if v \<in> fst ` set (cn_globals f) then Some (P v) else None)
       (cn_energy f)"

definition bond_energy :: "CustomBondForce \<Rightarrow> real list \<Rightarrow> real \<Rightarrow> real option" where
  "bond_energy f ps r = evaluate (bond_variables (cb_per_bond f) ps r) (cb_energy f)"

section \<open>The force-construction operations\<close>

subsection \<open>add_LJ_scaling and create_custom_LJ\<close>

fun copy_particles ::
  "NonbondedForce \<Rightarrow> nat list \<Rightarrow> CustomNonbondedForce \<Rightarrow> py_error + CustomNonbondedForce" where
  "copy_particles nonbonded [] intermol_LJ = Inr intermol_LJ"
| "copy_particles nonbonded (atom_i # rest) intermol_LJ =
     (case getParticleParameters nonbonded atom_i of
        Inl e \<Rightarrow> Inl e
      | Inr (charge, sigma, epsilon) \<Rightarrow>
          copy_particles nonbonded rest (addParticle intermol_LJ [sigma, epsilon]))"

fun copy_exceptions ::
  "NonbondedForce \<Rightarrow> nat list \<Rightarrow> CustomNonbondedForce \<Rightarrow> py_error + CustomNonbondedForce" where
  "copy_exceptions nonbonded [] intermol_LJ = Inr intermol_LJ"
| "copy_exceptions nonbonded (exception_i # rest) intermol_LJ =
     (case getExceptionParameters nonbonded exception_i of
        Inl e \<Rightarrow> Inl e
      | Inr (atom_i, atom_j, chargeprod, sigma, epsilon) \<Rightarrow>
          copy_exceptions nonbonded rest (addExclusion intermol_LJ atom_i atom_j))"

fun add_intramol_bonds ::
  "NonbondedForce \<Rightarrow> nat list \<Rightarrow> nat list \<Rightarrow> CustomBondForce \<Rightarrow> py_error + CustomBondForce" where
  "add_intramol_bonds nonbonded molecule [] intramol_LJ = Inr intramol_LJ"
| "add_intramol_bonds nonbonded molecule (exception_i # rest) intramol_LJ =
     (case getExceptionParameters nonbonded exception_i of
        Inl e \<Rightarrow> Inl e
      | Inr (atom_i, atom_j, charge, sigma, epsilon) \<Rightarrow>
          add_intramol_bonds nonbonded molecule rest
            (if atom_i \<in> set molecule \<and> atom_j \<in> set molecule
             then addBond intramol_LJ atom_i atom_j [sigma, epsilon]
             else intramol_LJ))"

definition softcore_globals :: "real \<Rightarrow> (string \<times> real) list" where
  "softcore_globals lambda_value =
     [(''lambda_sterics'', lambda_value), (''softcore_a'', 1), (''softcore_b'', 1),
      (''softcore_c'', 6), (''softcore_alpha'', 0.5)]"

text \<open>
  The statements of \<open>add_LJ_scaling\<close> in their order: the CustomNonbondedForce is built
  and configured, its force group is set, the particles and the exclusions are copied,
  the force is added to the system; then the CustomBondForce is built, its force group is
  set, the bonds are added, and the force is added to the system. The interaction group
  is stored as it is given. (When the second \<open>setForceGroup\<close> raises, the system already
  holds the CustomNonbondedForce; what a failed call leaves behind is not modelled.)
\<close>

definition add_LJ_scaling ::
  "system \<Rightarrow> nat list \<Rightarrow> nat list \<Rightarrow> real \<Rightarrow> int \<Rightarrow> int \<Rightarrow> py_error + system" where
  "add_LJ_scaling system molecule solvent lambda_value force_group_1 force_group_2 =
     (case get_nonbonded system of
        Inl e \<Rightarrow> Inl e
      | Inr nonbonded \<Rightarrow>
         (let intermol_LJ =
                \<lparr>cn_energy = softcore_LJ_expression,
                 cn_globals = softcore_globals lambda_value,
                 cn_per_particle = [''sigma'', ''epsilon''],
                 cn_cutoff = nb_cutoff nonbonded, cn_method = CutoffPeriodic,
                 cn_long_range = nb_dispersion nonbonded,
                 cn_groups = [(molecule, solvent)], cn_force_group = 0,
                 cn_particles = [], cn_exclusions = []\<rparr>
          in case setForceGroup intermol_LJ force_group_1 of
            Inl e \<Rightarrow> Inl e
          | Inr intermol_LJ \<Rightarrow>
         (case copy_particles nonbonded [0..<getNumParticles nonbonded] intermol_LJ of
            Inl e \<Rightarrow> Inl e
          | Inr intermol_LJ \<Rightarrow>
         (case copy_exceptions nonbonded [0..<getNumExceptions nonbonded] intermol_LJ of
            Inl e \<Rightarrow> Inl e
          | Inr intermol_LJ \<Rightarrow>
         (let system = addForce system (CustomNonbonded intermol_LJ);
              intramol_LJ =
                \<lparr>cb_energy = bond_LJ_expression,
                 cb_per_bond = [''sigma'', ''epsilon''],
                 cb_force_group = 0, cb_bonds = []\<rparr>
          in case setForceGroup_bond intramol_LJ force_group_2 of
            Inl e \<Rightarrow> Inl e
          | Inr intramol_LJ \<Rightarrow>
         (case add_intramol_bonds nonbonded molecule
                 [0..<getNumExceptions nonbonded] intramol_LJ of
            Inl e \<Rightarrow> Inl e
          | Inr intramol_LJ \<Rightarrow> Inr (addForce system (CustomBond intramol_LJ))))))))"

text \<open>
  \<open>create_custom_LJ\<close> of notebook 03 is the same sequence of statements with the plain
  Lennard-Jones expression and no global parameter.
\<close>

definition create_custom_LJ ::
  "system \<Rightarrow> nat list \<Rightarrow> nat list \<Rightarrow> int \<Rightarrow> int \<Rightarrow> py_error + system" where
  "create_custom_LJ system molecule solvent force_group_1 force_group_2 =
     (case get_nonbonded system of
        Inl e \<Rightarrow> Inl e
      | Inr nonbonded \<Rightarrow>
         (let intermol_LJ =
                \<lparr>cn_energy = pair_LJ_expression,
                 cn_globals = [],
                 cn_per_particle = [''sigma'', ''epsilon''],
                 cn_cutoff = nb_cutoff nonbonded, cn_method = CutoffPeriodic,
                 cn_long_range = nb_dispersion nonbonded,
                 cn_groups = [(molecule, solvent)], cn_force_group = 0,
                 cn_particles = [], cn_exclusions = []\<rparr>
          in case setForceGroup intermol_LJ force_group_1 of
            Inl e \<Rightarrow> Inl e
          | Inr intermol_LJ \<Rightarrow>
         (case copy_particles nonbonded [0..<getNumParticles nonbonded] intermol_LJ of
            Inl e \<Rightarrow> Inl e
          | Inr intermol_LJ \<Rightarrow>
         (case copy_exceptions nonbonded [0..<getNumExceptions nonbonded] intermol_LJ of
            Inl e \<Rightarrow> Inl e
          | Inr intermol_LJ \<Rightarrow>
         (let system = addForce system (CustomNonbonded intermol_LJ);
              intramol_LJ =
                \<lparr>cb_energy = bond_LJ_expression,
                 cb_per_bond = [''sigma'', ''epsilon''],
                 cb_force_group = 0, cb_bonds = []\<rparr>
          in case setForceGroup_bond intramol_LJ force_group_2 of
            Inl e \<Rightarrow> Inl e
          | Inr intramol_LJ \<Rightarrow>
         (case add_intramol_bonds nonbonded molecule
                 [0..<getNumExceptions nonbonded] intramol_LJ of
            Inl e \<Rightarrow> Inl e
          | Inr intramol_LJ \<Rightarrow> Inr (addForce system (CustomBond intramol_LJ))))))))"

subsection \<open>turn_off_nonbonded\<close>

fun turn_off_particles :: "nat list \<Rightarrow> NonbondedForce \<Rightarrow> py_error + NonbondedForce" where
  "turn_off_particles [] nonbonded = Inr nonbonded"
| "turn_off_particles (atom_i # rest) nonbonded =
     (case getParticleParameters nonbonded atom_i of
        Inl e \<Rightarrow> Inl e
      | Inr (charge, sigma, epsilon) \<Rightarrow>
         (case setParticleParameters nonbonded atom_i 0.0 sigma 0.0 of
            Inl e \<Rightarrow> Inl e
          | Inr nonbonded \<Rightarrow> turn_off_particles rest nonbonded))"

fun turn_off_exceptions ::
  "nat list \<Rightarrow> nat list \<Rightarrow> NonbondedForce \<Rightarrow> py_error + NonbondedForce" where
  "turn_off_exceptions molecule [] nonbonded = Inr nonbonded"
| "turn_off_exceptions molecule (exception_i # rest) nonbonded =
     (case getExceptionParameters nonbonded exception_i of
        Inl e \<Rightarrow> Inl e
      | Inr (atom_i, atom_j, charge, sigma, epsilon) \<Rightarrow>
         (if atom_i \<in> set molecule \<and> atom_j \<in> set molecule then
            (case setExceptionParameters nonbonded exception_i atom_i atom_j 0.0 sigma 0.0 of
               Inl e \<Rightarrow> Inl e
             | Inr nonbonded \<Rightarrow> turn_off_exceptions molecule rest nonbonded)
          else turn_off_exceptions molecule rest nonbonded))"

definition turn_off_nonbonded :: "system \<Rightarrow> nat list \<Rightarrow> py_error + system" where
  "turn_off_nonbonded system molecule =
     (case get_nonbonded system of
        Inl e \<Rightarrow> Inl e
      | Inr nonbonded \<Rightarrow>
         (case turn_off_particles molecule nonbonded of
            Inl e \<Rightarrow> Inl e
          | Inr nonbonded \<Rightarrow>
             (case turn_off_exceptions molecule [0..<getNumExceptions nonbonded] nonbonded of
                Inl e \<Rightarrow> Inl e
              | Inr nonbonded \<Rightarrow> Inr (put_nonbonded nonbonded system))))"

subsection \<open>add_lambda_elec\<close>

fun offset_particles :: "nat list \<Rightarrow> NonbondedForce \<Rightarrow> py_error + NonbondedForce" where
  "offset_particles [] nonbonded = Inr nonbonded"
| "offset_particles (atom_i # rest) nonbonded =
     (case getParticleParameters nonbonded atom_i of
        Inl e \<Rightarrow> Inl e
      | Inr (charge, sigma, epsilon) \<Rightarrow>
         (case addParticleParameterOffset nonbonded ''lambda_electrostatics'' atom_i
                 charge 0.0 0.0 of
            Inl e \<Rightarrow> Inl e
          | Inr nonbonded \<Rightarrow> offset_particles rest nonbonded))"

fun offset_exceptions ::
  "nat list \<Rightarrow> nat list \<Rightarrow> NonbondedForce \<Rightarrow> py_error + NonbondedForce" where
  "offset_exceptions molecule [] nonbonded = Inr nonbonded"
| "offset_exceptions molecule (exception_i # rest) nonbonded =
     (case getExceptionParameters nonbonded exception_i of
        Inl e \<Rightarrow> Inl e
      | Inr (atom_i, atom_j, charge, sigma, epsilon) \<Rightarrow>
         (if atom_i \<in> set molecule \<and> atom_j \<in> set molecule then
            (case addExceptionParameterOffset nonbonded ''lambda_electrostatics'' exception_i
                    charge 0.0 0.0 of
               Inl e \<Rightarrow> Inl e
             | Inr nonbonded \<Rightarrow> offset_exceptions molecule rest nonbonded)
          else offset_exceptions molecule rest nonbonded))"

definition add_lambda_elec :: "system \<Rightarrow> nat list \<Rightarrow> real \<Rightarrow> py_error + system" where
  "add_lambda_elec system molecule lambda_value =
     (case get_nonbonded system of
        Inl e \<Rightarrow> Inl e
      | Inr nonbonded \<Rightarrow>
         (let nonbonded = addGlobalParameter nonbonded ''lambda_electrostatics'' lambda_value in
          case offset_particles molecule nonbonded of
            Inl e \<Rightarrow> Inl e
          | Inr nonbonded \<Rightarrow>
             (case offset_exceptions molecule [0..<getNumExceptions nonbonded] nonbonded of
                Inl e \<Rightarrow> Inl e
              | Inr nonbonded \<Rightarrow> Inr (put_nonbonded nonbonded system))))"

subsection \<open>Auxiliary notions for the statements below\<close>

definition both_in :: "nat list \<Rightarrow> nat \<times> nat \<times> real \<times> real \<times> real \<Rightarrow> bool" where
  "both_in molecule e = (fst e \<in> set molecule \<and> fst (snd e) \<in> set molecule)"

definition bond_of :: "nat \<times> nat \<times> real \<times> real \<times> real \<Rightarrow> nat \<times> nat \<times> real list" where
  "bond_of e = (fst e, fst (snd e), [fst (snd (snd (snd e))), snd (snd (snd (snd e)))])"

definition zero_particle :: "real \<times> real \<times> real \<Rightarrow> real \<times> real \<times> real" where
  "zero_particle p = (0, fst (snd p), 0)"

definition zero_exception :: "nat \<times> nat \<times> real \<times> real \<times> real \<Rightarrow> nat \<times> nat \<times> real \<times> real \<times> real" where
  "zero_exception e = (fst e, fst (snd e), 0, fst (snd (snd (snd e))), 0)"

definition valid_atoms :: "nat list \<Rightarrow> NonbondedForce \<Rightarrow> bool" where
  "valid_atoms molecule nonbonded =
     list_all (\<lambda>atom_i. atom_i < getNumParticles nonbonded) molecule"

text \<open>
  The arguments for which the statements about failures are made: force groups that the
  engine accepts, and lists of particle indices of the NonbondedForce that the
  operations use (the first of the system, when there is one).
\<close>

definition valid_force_group :: "int \<Rightarrow> bool" where
  "valid_force_group force_group = (0 \<le> force_group \<and> force_group \<le> 31)"

definition valid_arguments :: "system \<Rightarrow> nat list \<Rightarrow> bool" where
  "valid_arguments system atoms =
     (case nonbonded_forces system of [] \<Rightarrow> True | nb # rest \<Rightarrow> valid_atoms atoms nb)"

text \<open>A small system to run the operations on: two solute atoms, two solvent atoms.\<close>

definition toy_nonbonded :: NonbondedForce where
  "toy_nonbonded =
     \<lparr>nb_method = PME,
      nb_particles = [(1/2, 1, 1), (-1/2, 1, 1), (-1, 1, 1), (1, 1, 1)],
      nb_exceptions = [(0, 1, -1/4, 1, 1/2)],
      nb_cutoff = 9/10, nb_dispersion = True, nb_globals = [],
      nb_particle_offsets = [], nb_exception_offsets = []\<rparr>"

definition toy_system :: system where
  "toy_system = [OtherForce ''HarmonicBondForce'', Nonbonded toy_nonbonded,
                 OtherForce ''MonteCarloBarostat'']"

text \<open>
  The engine's meaning of parameter offsets: the charge it uses for a particle is the
  particle's own charge plus, for every offset registered for that particle, the value
  of the offset's global parameter times the offset's charge scale; likewise for the
  charge product of an exception.
\<close>

definition effective_charge :: "NonbondedForce \<Rightarrow> (string \<Rightarrow> real) \<Rightarrow> nat \<Rightarrow> real" where
  "effective_charge nonbonded P atom_i =
     fst (nb_particles nonbonded ! atom_i) +
     (\<Sum>off \<leftarrow> nb_particle_offsets nonbonded.
        if fst (snd off) = atom_i then P (fst off) * fst (snd (snd off)) else 0)"

definition effective_chargeprod :: "NonbondedForce \<Rightarrow> (string \<Rightarrow> real) \<Rightarrow> nat \<Rightarrow> real" where
  "effective_chargeprod nonbonded P exception_i =
     fst (snd (snd (nb_exceptions nonbonded ! exception_i))) +
     (\<Sum>off \<leftarrow> nb_exception_offsets nonbonded.
        if fst (snd off) = exception_i then P (fst off) * fst (snd (snd off)) else 0)"

section \<open>The Lennard-Jones energy of a configuration\<close>

text \<open>
  A configuration gives the distance between any two atoms (between nearest periodic
  images, under a periodic method). The engine's evaluation of the three kinds of force,
  as its documentation gives it: a NonbondedForce adds, over the pairs of particles that
  are not an exception and lie within the cutoff (when the method has one), the
  Lennard-Jones energy under the Lorentz-Berthelot rules, and over its exceptions the
  Lennard-Jones energy with the exception's own sigma and epsilon; a CustomNonbondedForce
  adds its expression over the pairs that are not excluded, belong to an interaction
  group and lie within the cutoff; a CustomBondForce adds its expression over its bonds.
  A pair at exactly the cutoff distance is counted by the NonbondedForce and not by the
  CustomNonbondedForce. No switching function is used (none is set by the notebooks).
  The analytic long-range correction depends on the box and is not modelled: the energy
  of a force whose correction flag is set has no value here. An energy that is not a
  finite number has no value either.
\<close>

type_synonym configuration = "nat \<Rightarrow> nat \<Rightarrow> real"

definition excluded :: "(nat \<times> nat) list \<Rightarrow> nat \<Rightarrow> nat \<Rightarrow> bool" where
  "excluded pairs i j = ((i, j) \<in> set pairs \<or> (j, i) \<in> set pairs)"

definition in_groups :: "(nat list \<times> nat list) list \<Rightarrow> nat \<Rightarrow> nat \<Rightarrow> bool" where
  "in_groups groups i j =
     (groups = [] \<or>
      list_ex (\<lambda>g. (i \<in> set (fst g) \<and> j \<in> set (snd g)) \<or>
                    (i \<in> set (snd g) \<and> j \<in> set (fst g))) groups)"

definition particle_pairs :: "nat \<Rightarrow> (nat \<times> nat) list" where
  "particle_pairs n = concat (map (\<lambda>i. map (\<lambda>j. (i, j)) [Suc i..<n]) [0..<n])"

definition sum_values :: "real option list \<Rightarrow> real option" where
  "sum_values vs = map_option sum_list (those vs)"

definition exception_pairs :: "NonbondedForce \<Rightarrow> (nat \<times> nat) list" where
  "exception_pairs nonbonded = map (\<lambda>e. (fst e, fst (snd e))) (nb_exceptions nonbonded)"

definition lennard_jones :: "real \<Rightarrow> real \<Rightarrow> real \<Rightarrow> real option" where
  "lennard_jones sigma epsilon r =
     (if r = 0 then None else Some (4 * epsilon * ((sigma / r) ^ 12 - (sigma / r) ^ 6)))"

definition pair_LJ :: "real \<Rightarrow> real \<Rightarrow> real \<Rightarrow> real \<Rightarrow> real \<Rightarrow> real option" where
  "pair_LJ sigma1 epsilon1 sigma2 epsilon2 r =
     (if epsilon1 * epsilon2 < 0 then None
      else lennard_jones (0.5 * (sigma1 + sigma2)) (sqrt (epsilon1 * epsilon2)) r)"

definition nonbonded_LJ_energy :: "NonbondedForce \<Rightarrow> configuration \<Rightarrow> real option" where
  "nonbonded_LJ_energy nonbonded d =
     (if nb_dispersion nonbonded then None
      else sum_values
        (map (\<lambda>(i, j).
                if excluded (exception_pairs nonbonded) i j then Some 0
                else if nb_method nonbonded \<noteq> NoCutoff \<and> nb_cutoff nonbonded < d i j
                  then Some 0
                else pair_LJ (fst (snd (nb_particles nonbonded ! i)))
                             (snd (snd (nb_particles nonbonded ! i)))
                             (fst (snd (nb_particles nonbonded ! j)))
                             (snd (snd (nb_particles nonbonded ! j))) (d i j))
           (particle_pairs (getNumParticles nonbonded))
         @ map (\<lambda>e. lennard_jones (fst (snd (snd (snd e)))) (snd (snd (snd (snd e))))
                       (d (fst e) (fst (snd e))))
             (nb_exceptions nonbonded)))"

definition custom_nonbonded_energy ::
  "CustomNonbondedForce \<Rightarrow> (string \<Rightarrow> real) \<Rightarrow> configuration \<Rightarrow> real option" where
  "custom_nonbonded_energy f P d =
     (if cn_long_range f then None
      else sum_values
        (map (\<lambda>(i, j).
                if excluded (cn_exclusions f) i j then Some 0
                else if \<not> in_groups (cn_groups f) i j then Some 0
                else if cn_method f \<noteq> NoCutoff \<and> cn_cutoff f \<le> d i j then Some 0
                else pair_energy f P (cn_particles f ! i) (cn_particles f ! j) (d i j))
           (particle_pairs (length (cn_particles f)))))"

definition custom_bond_energy :: "CustomBondForce \<Rightarrow> configuration \<Rightarrow> real option" where
  "custom_bond_energy f d =
     sum_values (map (\<lambda>b. bond_energy f (snd (snd b)) (d (fst b) (fst (snd b)))) (cb_bonds f))"

text \<open>
  A molecule that is a chain of five atoms (0 to 4) and one solvent atom (5). The chain
  has an exception for every pair of atoms up to three bonds apart (Lennard-Jones
  switched off for the pairs one and two bonds apart, halved epsilon for the two pairs
  three bonds apart); its end atoms 0 and 4 are four bonds apart and have none. The
  dispersion correction is off.
\<close>

definition chain_in_solvent :: NonbondedForce where
  "chain_in_solvent =
     \<lparr>nb_method = PME,
      nb_particles = [(0, 1, 1), (0, 1, 1), (0, 1, 1), (0, 1, 1), (0, 1, 1), (0, 1, 1)],
      nb_exceptions =
        [(0, 1, 0, 1, 0), (1, 2, 0, 1, 0), (2, 3, 0, 1, 0), (3, 4, 0, 1, 0),
         (0, 2, 0, 1, 0), (1, 3, 0, 1, 0), (2, 4, 0, 1, 0),
         (0, 3, 0, 1, 1/2), (1, 4, 0, 1, 1/2)],
      nb_cutoff = 9/10, nb_dispersion = False, nb_globals = [],
      nb_particle_offsets = [], nb_exception_offsets = []\<rparr>"

text \<open>
  A configuration of these six atoms: they lie on a line at 0, 1, 2, -1/2, 1/2 and 3/2.
  The end atoms 0 and 4 of the chain are at distance 1/2, as are the atoms of the two
  pairs three bonds apart, and the solvent atom is at distance 1/2 from atoms 1 and 2 and
  beyond the cutoff from the others.
\<close>

definition chain_configuration :: configuration where
  "chain_configuration =
     (\<lambda>i j. \<bar>[0, 1, 2, -1/2, 1/2, 3/2] ! i - [0, 1, 2, -1/2, 1/2, 3/2] ! j\<bar>)"

text \<open>
  A solute atom and a solvent atom whose sigma and epsilon are both 0, as for hydrogen
  atoms that carry no Lennard-Jones site.
\<close>

definition zero_sigma_pair :: NonbondedForce where
  "zero_sigma_pair =
     \<lparr>nb_method = PME, nb_particles = [(2/5, 0, 0), (2/5, 0, 0)], nb_exceptions = [],
      nb_cutoff = 9/10, nb_dispersion = True, nb_globals = [],
      nb_particle_offsets = [], nb_exception_offsets = []\<rparr>"

section \<open>The alchemical production loop\<close>

text \<open>
  The simulation context holds the values of the global parameters and the microstate
  (positions, velocities, box, and the state of the random number generators). The engine
  is a parameter of the model: \<open>step n P x\<close> is the microstate after \<open>n\<close> integration
  steps from \<open>x\<close> under the parameter values \<open>P\<close>, and \<open>potential P x\<close> is the potential
  energy of \<open>x\<close> under \<open>P\<close>. \<open>setParameter\<close> on the context changes one parameter value and
  nothing else; \<open>getState(getEnergy=True)\<close> reads the context. The reporters and
  \<open>saveState\<close> write files and are left out.
\<close>

record 'm simulation_context =
  ctx_parameters :: "string \<Rightarrow> real"
  ctx_microstate :: 'm

definition context_setParameter :: "string \<Rightarrow> real \<Rightarrow> 'm simulation_context \<Rightarrow> 'm simulation_context" where
  "context_setParameter name v ctx =
     ctx\<lparr>ctx_parameters := setParameter (ctx_parameters ctx) name v\<rparr>"

definition simulation_step ::
  "(nat \<Rightarrow> (string \<Rightarrow> real) \<Rightarrow> 'm \<Rightarrow> 'm) \<Rightarrow> nat \<Rightarrow> 'm simulation_context \<Rightarrow> 'm simulation_context" where
  "simulation_step step n ctx =
     ctx\<lparr>ctx_microstate := step n (ctx_parameters ctx) (ctx_microstate ctx)\<rparr>"

definition getPotentialEnergy ::
  "((string \<Rightarrow> real) \<Rightarrow> 'm \<Rightarrow> real) \<Rightarrow> 'm simulation_context \<Rightarrow> real" where
  "getPotentialEnergy potential ctx = potential (ctx_parameters ctx) (ctx_microstate ctx)"

text \<open>
  The array \<open>u_kln\<close> as a function of its three indices; \<open>np.zeros\<close> is the constant 0.
\<close>

type_synonym u_array = "nat \<Rightarrow> nat \<Rightarrow> nat \<Rightarrow> real"

definition zeros :: u_array where
  "zeros = (\<lambda>k l n. 0)"

definition array_set :: "u_array \<Rightarrow> nat \<Rightarrow> nat \<Rightarrow> nat \<Rightarrow> real \<Rightarrow> u_array" where
  "array_set u k l n v = (\<lambda>k' l' n'. if k' = k \<and> l' = l \<and> n' = n then v else u k' l' n')"

text \<open>
  What the loops are given: the name of the control parameter (lambda_sterics in notebook
  02, lambda_electrostatics in notebook 03), the lambda schedule, the numbers of steps,
  the number of production blocks and the thermal energy.
\<close>

record protocol =
  parameter_name :: string
  lambda_values :: "real list"
  output_freq :: nat
  equil_steps :: nat
  total_iterations :: nat
  kT :: real

text \<open>The inner loop \<^verbatim>\<open>for l, lb2 in enumerate(lambda_values)\<close>, from index \<open>l\<close> on.\<close>

fun evaluate_all ::
  "((string \<Rightarrow> real) \<Rightarrow> 'm \<Rightarrow> real) \<Rightarrow> protocol \<Rightarrow> nat \<Rightarrow> nat \<Rightarrow> nat \<Rightarrow> real list
     \<Rightarrow> 'm simulation_context \<times> u_array \<Rightarrow> 'm simulation_context \<times> u_array" where
  "evaluate_all potential pr k n l [] (ctx, u_kln) = (ctx, u_kln)"
| "evaluate_all potential pr k n l (lb2 # rest) (ctx, u_kln) =
     (let ctx = context_setParameter (parameter_name pr) lb2 ctx;
          u_kln = array_set u_kln k l n (getPotentialEnergy potential ctx / kT pr)
      in evaluate_all potential pr k n (Suc l) rest (ctx, u_kln))"

text \<open>The loop \<^verbatim>\<open>for n in range(total_iterations)\<close>, over the block indices given.\<close>

fun production_blocks ::
  "(nat \<Rightarrow> (string \<Rightarrow> real) \<Rightarrow> 'm \<Rightarrow> 'm) \<Rightarrow> ((string \<Rightarrow> real) \<Rightarrow> 'm \<Rightarrow> real) \<Rightarrow> protocol
     \<Rightarrow> nat \<Rightarrow> real \<Rightarrow> nat list \<Rightarrow> 'm simulation_context \<times> u_array \<Rightarrow> 'm simulation_context \<times> u_array" where
  "production_blocks step potential pr k lb1 [] (ctx, u_kln) = (ctx, u_kln)"
| "production_blocks step potential pr k lb1 (n # ns) (ctx, u_kln) =
     (let ctx = context_setParameter (parameter_name pr) lb1 ctx;
          ctx = simulation_step step (output_freq pr) ctx
      in production_blocks step potential pr k lb1 ns
           (evaluate_all potential pr k n 0 (lambda_values pr) (ctx, u_kln)))"

text \<open>The loop \<^verbatim>\<open>for k, lb1 in enumerate(lambda_values)\<close>, from index \<open>k\<close> on.\<close>

fun alchemical_run ::
  "(nat \<Rightarrow> (string \<Rightarrow> real) \<Rightarrow> 'm \<Rightarrow> 'm) \<Rightarrow> ((string \<Rightarrow> real) \<Rightarrow> 'm \<Rightarrow> real) \<Rightarrow> protocol
     \<Rightarrow> nat \<Rightarrow> real list \<Rightarrow> 'm simulation_context \<times> u_array \<Rightarrow> 'm simulation_context \<times> u_array" where
  "alchemical_run step potential pr k [] (ctx, u_kln) = (ctx, u_kln)"
| "alchemical_run step potential pr k (lb1 # rest) (ctx, u_kln) =
     (let ctx = context_setParameter (parameter_name pr) lb1 ctx;
          ctx = simulation_step step (equil_steps pr) ctx
      in alchemical_run step potential pr (Suc k) rest
           (production_blocks step potential pr k lb1 [0..<total_iterations pr] (ctx, u_kln)))"

definition alchemical_production ::
  "(nat \<Rightarrow> (string \<Rightarrow> real) \<Rightarrow> 'm \<Rightarrow> 'm) \<Rightarrow> ((string \<Rightarrow> real) \<Rightarrow> 'm \<Rightarrow> real) \<Rightarrow> protocol
     \<Rightarrow> 'm simulation_context \<Rightarrow> 'm simulation_context \<times> u_array" where
  "alchemical_production step potential pr ctx =
     alchemical_run step potential pr 0 (lambda_values pr) (ctx, zeros)"

text \<open>
  The dynamics alone, with no energy evaluation: the microstate at which state \<open>k\<close>
  starts, and the microstate after production block \<open>n\<close> of state \<open>k\<close>. State \<open>k\<close> runs
  under the parameter values \<open>P\<close> with the control parameter at \<open>lambda_values[k]\<close>.
\<close>

definition state_parameters :: "protocol \<Rightarrow> (string \<Rightarrow> real) \<Rightarrow> nat \<Rightarrow> string \<Rightarrow> real" where
  "state_parameters pr P k = setParameter P (parameter_name pr) (lambda_values pr ! k)"

fun state_start ::
  "(nat \<Rightarrow> (string \<Rightarrow> real) \<Rightarrow> 'm \<Rightarrow> 'm) \<Rightarrow> protocol \<Rightarrow> (string \<Rightarrow> real) \<Rightarrow> 'm \<Rightarrow> nat \<Rightarrow> 'm" where
  "state_start step pr P x 0 = x"
| "state_start step pr P x (Suc k) =
     ((step (output_freq pr) (state_parameters pr P k)) ^^ total_iterations pr)
       (step (equil_steps pr) (state_parameters pr P k) (state_start step pr P x k))"

definition sampled_microstate ::
  "(nat \<Rightarrow> (string \<Rightarrow> real) \<Rightarrow> 'm \<Rightarrow> 'm) \<Rightarrow> protocol \<Rightarrow> (string \<Rightarrow> real) \<Rightarrow> 'm \<Rightarrow> nat \<Rightarrow> nat \<Rightarrow> 'm" where
  "sampled_microstate step pr P x k n =
     ((step (output_freq pr) (state_parameters pr P k)) ^^ Suc n)
       (step (equil_steps pr) (state_parameters pr P k) (state_start step pr P x k))"

text \<open>A small engine and protocol to run the loop on: the microstate is one real number.\<close>

definition toy_step :: "nat \<Rightarrow> (string \<Rightarrow> real) \<Rightarrow> real \<Rightarrow> real" where
  "toy_step n P x = x + real n * P ''lambda_sterics''"

definition toy_potential :: "(string \<Rightarrow> real) \<Rightarrow> real \<Rightarrow> real" where
  "toy_potential P x = P ''lambda_sterics'' * x"

definition toy_protocol :: protocol where
  "toy_protocol =
     \<lparr>parameter_name = ''lambda_sterics'', lambda_values = [0, 1/2, 1],
      output_freq = 2, equil_steps = 3, total_iterations = 2, kT = 2\<rparr>"

definition toy_context :: "real simulation_context" where
  "toy_context = \<lparr>ctx_parameters = (\<lambda>name. 0), ctx_microstate = 1\<rparr>"

section \<open>The decorrelation cell\<close>

text \<open>
  The two time-series functions are the library's and are parameters of the model:
  \<open>detectEquilibration\<close> maps a series to (nequil, g, Neff_max), and
  \<open>subsampleCorrelatedData\<close> maps a series and g to the list of retained indices. The
  array \<open>u_kln\<close> has \<open>n_lambda\<close> rows and columns and \<open>n_iterations\<close> samples (the
  notebook's \<open>total_iterations\<close>); \<open>N_k\<close> is a function of the state index. Reading
  \<open>u_kln[k, :, indices]\<close> raises IndexError when an index is not below \<open>n_iterations\<close>,
  and the assignment to \<open>u_kln[k, :, 0:N_k[k]]\<close> raises ValueError when there are more
  indices than samples (the slice is clipped and the shapes differ). The right-hand side
  is a copy, so the assignment reads the old values.
\<close>

definition diagonal_series :: "u_array \<Rightarrow> nat \<Rightarrow> nat \<Rightarrow> real list" where
  "diagonal_series u_kln k n_iterations = map (\<lambda>n. u_kln k k n) [0..<n_iterations]"

definition decorrelate_state ::
  "(real list \<Rightarrow> nat \<times> real \<times> real) \<Rightarrow> (real list \<Rightarrow> real \<Rightarrow> nat list) \<Rightarrow> nat \<Rightarrow> nat \<Rightarrow> nat
     \<Rightarrow> u_array \<times> (nat \<Rightarrow> nat) \<Rightarrow> py_error + (u_array \<times> (nat \<Rightarrow> nat))" where
  "decorrelate_state detectEquilibration subsampleCorrelatedData n_lambda n_iterations k s =
     (case s of (u_kln, N_k) \<Rightarrow>
       (case detectEquilibration (diagonal_series u_kln k n_iterations) of
          (nequil, g, Neff_max) \<Rightarrow>
            (let indices = subsampleCorrelatedData (diagonal_series u_kln k n_iterations) g;
                 N_k = N_k(k := length indices)
             in if \<not> list_all (\<lambda>i. i < n_iterations) indices then Inl IndexError
                else if n_iterations < length indices then Inl ValueError
                else Inr (\<lambda>k' l n. if k' = k \<and> l < n_lambda \<and> n < N_k k
                                      then u_kln k l (indices ! n) else u_kln k' l n,
                          N_k))))"

fun decorrelate ::
  "(real list \<Rightarrow> nat \<times> real \<times> real) \<Rightarrow> (real list \<Rightarrow> real \<Rightarrow> nat list) \<Rightarrow> nat \<Rightarrow> nat \<Rightarrow> nat list
     \<Rightarrow> u_array \<times> (nat \<Rightarrow> nat) \<Rightarrow> py_error + (u_array \<times> (nat \<Rightarrow> nat))" where
  "decorrelate detectEquilibration subsampleCorrelatedData n_lambda n_iterations [] s = Inr s"
| "decorrelate detectEquilibration subsampleCorrelatedData n_lambda n_iterations (k # ks) s =
     (case decorrelate_state detectEquilibration subsampleCorrelatedData n_lambda
             n_iterations k s of
        Inl e \<Rightarrow> Inl e
      | Inr s \<Rightarrow>
          decorrelate detectEquilibration subsampleCorrelatedData n_lambda n_iterations ks s)"

definition decorrelation ::
  "(real list \<Rightarrow> nat \<times> real \<times> real) \<Rightarrow> (real list \<Rightarrow> real \<Rightarrow> nat list) \<Rightarrow> nat \<Rightarrow> nat
     \<Rightarrow> u_array \<Rightarrow> py_error + (u_array \<times> (nat \<Rightarrow> nat))" where
  "decorrelation detectEquilibration subsampleCorrelatedData n_lambda n_iterations u_kln =
     decorrelate detectEquilibration subsampleCorrelatedData n_lambda n_iterations
       [0..<n_lambda] (u_kln, \<lambda>k. 0)"

text \<open>
  The indices the cell retains for state \<open>k\<close> of an array, and what the cell's
  assignment requires of them: each is the index of a sample, and there are no more of
  them than samples. The cell does not look at their order.
\<close>

definition retained_indices ::
  "(real list \<Rightarrow> nat \<times> real \<times> real) \<Rightarrow> (real list \<Rightarrow> real \<Rightarrow> nat list) \<Rightarrow> nat
     \<Rightarrow> u_array \<Rightarrow> nat \<Rightarrow> nat list" where
  "retained_indices detectEquilibration subsampleCorrelatedData n_iterations u_kln k =
     subsampleCorrelatedData (diagonal_series u_kln k n_iterations)
       (fst (snd (detectEquilibration (diagonal_series u_kln k n_iterations))))"

definition accepted_indices :: "nat \<Rightarrow> nat list \<Rightarrow> bool" where
  "accepted_indices n_iterations indices =
     (list_all (\<lambda>i. i < n_iterations) indices \<and> length indices \<le> n_iterations)"

text \<open>
  Stand-ins for the two library functions, to run the cell on: two burn-in samples are
  reported, and every second sample is retained.
\<close>

definition toy_detectEquilibration :: "real list \<Rightarrow> nat \<times> real \<times> real" where
  "toy_detectEquilibration series = (2, 2, 1)"

definition toy_subsampleCorrelatedData :: "real list \<Rightarrow> real \<Rightarrow> nat list" where
  "toy_subsampleCorrelatedData series g = filter even [0..<length series]"

definition toy_u_kln :: u_array where
  "toy_u_kln = (\<lambda>k l n. real (100 * k + 10 * l + n))"


section \<open>Notebook cells\<close>

text \<open>
  A kernel's state is its namespace (the names bound so far) and what has been printed.
  A cell maps a state to the state it leaves and the exception it raised, if any; a
  top-to-bottom run stops at the first cell that raises. Imported names are taken as
  bound; objects of the libraries are opaque values.
\<close>

datatype pyvalue =
    Str string
  | Obj string
  | TemplateGenerator string
  | ForceField "string list" "string list"

record kernel =
  names :: "string \<rightharpoonup> pyvalue"
  stdout :: "string list"

type_synonym cell = "kernel \<Rightarrow> kernel \<times> py_error option"

definition bind_name :: "string \<Rightarrow> pyvalue \<Rightarrow> kernel \<Rightarrow> kernel" where
  "bind_name x v s = s\<lparr>names := (names s)(x \<mapsto> v)\<rparr>"

definition print_line :: "string \<Rightarrow> kernel \<Rightarrow> kernel" where
  "print_line text s = s\<lparr>stdout := stdout s @ [text]\<rparr>"

fun run_cells :: "cell list \<Rightarrow> kernel \<Rightarrow> kernel \<times> py_error option" where
  "run_cells [] s = (s, None)"
| "run_cells (c # cs) s =
     (case c s of (s', Some e) \<Rightarrow> (s', Some e) | (s', None) \<Rightarrow> run_cells cs s')"

definition fresh_kernel :: kernel where
  "fresh_kernel = \<lparr>names = Map.empty, stdout = []\<rparr>"

subsection \<open>The force-field selection cell of the example notebook\<close>

text \<open>\<open>str.upper\<close> on ASCII text: the letters a to z are mapped to A to Z.\<close>

definition upper_char :: "char \<Rightarrow> char" where
  "upper_char c =
     (case map_of (zip ''abcdefghijklmnopqrstuvwxyz'' ''ABCDEFGHIJKLMNOPQRSTUVWXYZ'') c of
        Some C \<Rightarrow> C | None \<Rightarrow> c)"

definition upper :: "string \<Rightarrow> string" where
  "upper text = map upper_char text"

text \<open>
  The \<^verbatim>\<open>if\<close> / \<^verbatim>\<open>elif\<close> / \<^verbatim>\<open>else\<close> of cell 20f7ddbc: the first two branches read
  \<open>off_mol\<close> and bind \<open>template\<close>, the last one prints.
\<close>

definition select_template :: "string \<Rightarrow> kernel \<Rightarrow> kernel \<times> py_error option" where
  "select_template forcefield_name s =
     (if upper forcefield_name = ''GAFF'' then
        (case names s ''off_mol'' of
           None \<Rightarrow> (s, Some (NameError ''off_mol''))
         | Some off_mol \<Rightarrow>
             (bind_name ''template'' (TemplateGenerator ''GAFFTemplateGenerator'') s, None))
      else if upper forcefield_name = ''SAGE'' then
        (case names s ''off_mol'' of
           None \<Rightarrow> (s, Some (NameError ''off_mol''))
         | Some off_mol \<Rightarrow>
             (bind_name ''template'' (TemplateGenerator ''SMIRNOFFTemplateGenerator'') s, None))
      else (print_line ''Unknow force field, cannot preceed.'' s, None))"

definition force_field_selection_cell :: cell where
  "force_field_selection_cell s =
     (let s = bind_name ''forcefield'' (ForceField [''tip3p.xml''] []) s in
      case names s ''forcefield_name'' of
        None \<Rightarrow> (s, Some (NameError ''forcefield_name''))
      | Some (Str forcefield_name) \<Rightarrow>
         (case select_template forcefield_name s of
            (s, Some e) \<Rightarrow> (s, Some e)
          | (s, None) \<Rightarrow>
             (let s = print_line (''Using force field: '' @ forcefield_name) s in
              case names s ''template'' of
                None \<Rightarrow> (s, Some (NameError ''template''))
              | Some (TemplateGenerator generator) \<Rightarrow>
                  (bind_name ''forcefield'' (ForceField [''tip3p.xml''] [generator]) s, None)
              | Some _ \<Rightarrow> (s, Some AttributeError)))
      | Some _ \<Rightarrow> (s, Some AttributeError))"

subsection \<open>The first cells of the electrostatics notebook (03)\<close>

text \<open>
  Cells a1a01c9f (setup), 118a5f50 (platform), 15cbc475 (input loading), c9e17174 (atom
  selection) and e5fccfa3 (system creation). Whether the CUDA platform exists and which
  files can be read are parameters. An f-string reads the names between its braces and
  formats their values (\<open>text_of\<close>). The calls that only touch the file system or the
  platform's properties (\<open>os.makedirs\<close>, \<open>setPropertyDefaultValue\<close>) bind no name and are
  left out.
\<close>

definition setup_cell :: cell where
  "setup_cell s =
     (let s = bind_name ''builf_folder'' (Str ''build_files'') s;
          s = bind_name ''work_folder'' (Str ''elec-bulk'') s
      in (s, None))"

definition platform_cell :: "bool \<Rightarrow> cell" where
  "platform_cell cuda s =
     (if cuda then (bind_name ''platform'' (Obj ''Platform CUDA'') s, None)
      else (s, Some OpenMMException))"

fun text_of :: "pyvalue \<Rightarrow> string" where
  "text_of (Str t) = t"
| "text_of (Obj t) = t"
| "text_of (TemplateGenerator t) = t"
| "text_of (ForceField files generators) = ''ForceField''"

definition load_file :: "(string \<Rightarrow> bool) \<Rightarrow> string \<Rightarrow> string \<Rightarrow> string \<Rightarrow> cell" where
  "load_file readable target class suffix s =
     (case names s ''build_folder'' of
        None \<Rightarrow> (s, Some (NameError ''build_folder''))
      | Some build_folder \<Rightarrow>
          (if readable (text_of build_folder @ suffix)
           then (bind_name target (Obj (class @ '' '' @ text_of build_folder @ suffix)) s, None)
           else (s, Some (FileNotFoundError (text_of build_folder @ suffix)))))"

definition input_loading_cell :: "(string \<Rightarrow> bool) \<Rightarrow> cell" where
  "input_loading_cell readable s =
     (case load_file readable ''prmtop'' ''AmberPrmtopFile'' ''/ethanol_tip3p.prmtop'' s of
        (s, Some e) \<Rightarrow> (s, Some e)
      | (s, None) \<Rightarrow>
          load_file readable ''inpcrd'' ''AmberInpcrdFile'' ''/ethanol_tip3p.rst7'' s)"

definition atom_selection_cell :: cell where
  "atom_selection_cell s =
     (case names s ''prmtop'' of
        None \<Rightarrow> (s, Some (NameError ''prmtop''))
      | Some prmtop \<Rightarrow>
          (let s = bind_name ''ethanol'' (Obj ''atom indices MOL'') s;
               s = bind_name ''solvent'' (Obj ''atom indices HOH'') s
           in (s, None)))"

definition create_system_cell :: cell where
  "create_system_cell s =
     (case names s ''prmtop'' of
        None \<Rightarrow> (s, Some (NameError ''prmtop''))
      | Some prmtop \<Rightarrow> (bind_name ''system'' (Obj ''System'') s, None))"

definition electrostatics_notebook :: "bool \<Rightarrow> (string \<Rightarrow> bool) \<Rightarrow> cell list" where
  "electrostatics_notebook cuda readable =
     [setup_cell, platform_cell cuda, input_loading_cell readable, atom_selection_cell,
      create_system_cell]"

section \<open>What the loops of the operations compute\<close>

lemma copy_particles_eq:
  "\<forall>i\<in>set is. i < length (nb_particles nb) \<Longrightarrow>
   copy_particles nb is f =
     Inr (f\<lparr>cn_particles := cn_particles f @ map (\<lambda>i. [fst (snd (nb_particles nb ! i)), snd (snd (nb_particles nb ! i))]) is\<rparr>)"
  by (induction "is" arbitrary: f)
     (simp_all add: getParticleParameters_def addParticle_def case_prod_beta)

lemma copy_particles_upt:
  "copy_particles nb [0..<length (nb_particles nb)] f =
     Inr (f\<lparr>cn_particles := cn_particles f @ map (\<lambda>p. [fst (snd p), snd (snd p)]) (nb_particles nb)\<rparr>)"
proof -
  have "map (\<lambda>i. [fst (snd (nb_particles nb ! i)), snd (snd (nb_particles nb ! i))])
          [0..<length (nb_particles nb)] =
        map (\<lambda>p. [fst (snd p), snd (snd p)]) (nb_particles nb)"
    by (rule nth_equalityI) simp_all
  then show ?thesis by (simp add: copy_particles_eq)
qed

lemma copy_exceptions_eq:
  "\<forall>i\<in>set is. i < length (nb_exceptions nb) \<Longrightarrow>
   copy_exceptions nb is f =
     Inr (f\<lparr>cn_exclusions := cn_exclusions f @ map (\<lambda>i. (fst (nb_exceptions nb ! i), fst (snd (nb_exceptions nb ! i)))) is\<rparr>)"
  by (induction "is" arbitrary: f)
     (simp_all add: getExceptionParameters_def addExclusion_def case_prod_beta)

lemma copy_exceptions_upt:
  "copy_exceptions nb [0..<length (nb_exceptions nb)] f =
     Inr (f\<lparr>cn_exclusions := cn_exclusions f @ map (\<lambda>e. (fst e, fst (snd e))) (nb_exceptions nb)\<rparr>)"
proof -
  have "map (\<lambda>i. (fst (nb_exceptions nb ! i), fst (snd (nb_exceptions nb ! i))))
          [0..<length (nb_exceptions nb)] =
        map (\<lambda>e. (fst e, fst (snd e))) (nb_exceptions nb)"
    by (rule nth_equalityI) simp_all
  then show ?thesis by (simp add: copy_exceptions_eq)
qed

lemma add_intramol_bonds_eq:
  "\<forall>i\<in>set is. i < length (nb_exceptions nb) \<Longrightarrow>
   add_intramol_bonds nb molecule is f =
     Inr (f\<lparr>cb_bonds := cb_bonds f @
        map bond_of (filter (both_in molecule) (map ((!) (nb_exceptions nb)) is))\<rparr>)"
  by (induction "is" arbitrary: f)
     (simp_all add: getExceptionParameters_def addBond_def both_in_def bond_of_def case_prod_beta)

lemma add_intramol_bonds_upt:
  "add_intramol_bonds nb molecule [0..<length (nb_exceptions nb)] f =
     Inr (f\<lparr>cb_bonds := cb_bonds f @ map bond_of (filter (both_in molecule) (nb_exceptions nb))\<rparr>)"
  by (simp add: add_intramol_bonds_eq map_nth)

lemma force_group_error_valid:
  "force_group_error force_group = None \<longleftrightarrow> valid_force_group force_group"
  by (auto simp: force_group_error_def valid_force_group_def)

lemma force_group_error_cases:
  "force_group_error force_group = Some e \<Longrightarrow> e = OpenMMException \<or> e = OverflowError"
  by (auto simp: force_group_error_def split: if_splits)

lemma add_LJ_scaling_eq:
  assumes "get_nonbonded system = Inr nonbonded"
    and "valid_force_group force_group_1" "valid_force_group force_group_2"
  shows "add_LJ_scaling system molecule solvent lambda_value force_group_1 force_group_2 =
    Inr (system @
      [CustomNonbonded
         \<lparr>cn_energy = softcore_LJ_expression,
          cn_globals = softcore_globals lambda_value,
          cn_per_particle = [''sigma'', ''epsilon''],
          cn_cutoff = nb_cutoff nonbonded, cn_method = CutoffPeriodic,
          cn_long_range = nb_dispersion nonbonded,
          cn_groups = [(molecule, solvent)], cn_force_group = force_group_1,
          cn_particles = map (\<lambda>p. [fst (snd p), snd (snd p)]) (nb_particles nonbonded),
          cn_exclusions = map (\<lambda>e. (fst e, fst (snd e))) (nb_exceptions nonbonded)\<rparr>,
       CustomBond
         \<lparr>cb_energy = bond_LJ_expression, cb_per_bond = [''sigma'', ''epsilon''],
          cb_force_group = force_group_2,
          cb_bonds = map bond_of (filter (both_in molecule) (nb_exceptions nonbonded))\<rparr>])"
  using assms force_group_error_valid [of force_group_1] force_group_error_valid [of force_group_2]
  by (simp add: add_LJ_scaling_def setForceGroup_def setForceGroup_bond_def
      copy_particles_upt copy_exceptions_upt add_intramol_bonds_upt
      getNumParticles_def getNumExceptions_def addForce_def)

lemma create_custom_LJ_eq:
  assumes "get_nonbonded system = Inr nonbonded"
    and "valid_force_group force_group_1" "valid_force_group force_group_2"
  shows "create_custom_LJ system molecule solvent force_group_1 force_group_2 =
    Inr (system @
      [CustomNonbonded
         \<lparr>cn_energy = pair_LJ_expression,
          cn_globals = [],
          cn_per_particle = [''sigma'', ''epsilon''],
          cn_cutoff = nb_cutoff nonbonded, cn_method = CutoffPeriodic,
          cn_long_range = nb_dispersion nonbonded,
          cn_groups = [(molecule, solvent)], cn_force_group = force_group_1,
          cn_particles = map (\<lambda>p. [fst (snd p), snd (snd p)]) (nb_particles nonbonded),
          cn_exclusions = map (\<lambda>e. (fst e, fst (snd e))) (nb_exceptions nonbonded)\<rparr>,
       CustomBond
         \<lparr>cb_energy = bond_LJ_expression, cb_per_bond = [''sigma'', ''epsilon''],
          cb_force_group = force_group_2,
          cb_bonds = map bond_of (filter (both_in molecule) (nb_exceptions nonbonded))\<rparr>])"
  using assms force_group_error_valid [of force_group_1] force_group_error_valid [of force_group_2]
  by (simp add: create_custom_LJ_def setForceGroup_def setForceGroup_bond_def
      copy_particles_upt copy_exceptions_upt add_intramol_bonds_upt
      getNumParticles_def getNumExceptions_def addForce_def)

lemma turn_off_particles_ok:
  "\<forall>i\<in>set mol. i < length (nb_particles nb) \<Longrightarrow>
   turn_off_particles mol nb =
     Inr (nb\<lparr>nb_particles :=
        map (\<lambda>i. if i \<in> set mol then zero_particle (nb_particles nb ! i) else nb_particles nb ! i)
          [0..<length (nb_particles nb)]\<rparr>)"
proof (induction mol arbitrary: nb)
  case Nil
  then show ?case by (simp add: map_nth)
next
  case (Cons a mol)
  obtain q s e where p: "nb_particles nb ! a = (q, s, e)" by (cases "nb_particles nb ! a") auto
  let ?nb = "nb\<lparr>nb_particles := (nb_particles nb)[a := (0, s, 0)]\<rparr>"
  have "turn_off_particles (a # mol) nb = turn_off_particles mol ?nb"
    using Cons.prems p by (simp add: getParticleParameters_def setParticleParameters_def)
  also have "\<dots> = Inr (?nb\<lparr>nb_particles :=
        map (\<lambda>i. if i \<in> set mol then zero_particle (nb_particles ?nb ! i) else nb_particles ?nb ! i)
          [0..<length (nb_particles ?nb)]\<rparr>)"
    using Cons.prems by (intro Cons.IH) simp
  also have "\<dots> = Inr (nb\<lparr>nb_particles :=
        map (\<lambda>i. if i \<in> set (a # mol) then zero_particle (nb_particles nb ! i) else nb_particles nb ! i)
          [0..<length (nb_particles nb)]\<rparr>)"
  proof -
    have "map (\<lambda>i. if i \<in> set mol then zero_particle ((nb_particles nb)[a := (0, s, 0)] ! i)
                     else (nb_particles nb)[a := (0, s, 0)] ! i) [0..<length (nb_particles nb)] =
          map (\<lambda>i. if i \<in> set (a # mol) then zero_particle (nb_particles nb ! i)
                     else nb_particles nb ! i) [0..<length (nb_particles nb)]"
      using p Cons.prems by (intro nth_equalityI) (auto simp: zero_particle_def nth_list_update)
    then show ?thesis by (simp cong: if_cong)
  qed
  finally show ?case .
qed

lemma index_error_cases: "index_error i = OpenMMException \<or> index_error i = OverflowError"
  by (simp add: index_error_def)

lemma turn_off_particles_fail:
  "\<not> (\<forall>i\<in>set mol. i < length (nb_particles nb)) \<Longrightarrow>
   \<exists>e. turn_off_particles mol nb = Inl e \<and> (e = OpenMMException \<or> e = OverflowError)"
proof (induction mol arbitrary: nb)
  case Nil
  then show ?case by simp
next
  case (Cons a mol)
  show ?case
  proof (cases "a < length (nb_particles nb)")
    case False
    then show ?thesis using index_error_cases [of a] by (simp add: getParticleParameters_def)
  next
    case True
    obtain q s e where p: "nb_particles nb ! a = (q, s, e)" by (cases "nb_particles nb ! a") auto
    let ?nb = "nb\<lparr>nb_particles := (nb_particles nb)[a := (0, s, 0)]\<rparr>"
    have "turn_off_particles (a # mol) nb = turn_off_particles mol ?nb"
      using True p by (simp add: getParticleParameters_def setParticleParameters_def)
    moreover have "\<exists>e. turn_off_particles mol ?nb = Inl e \<and> (e = OpenMMException \<or> e = OverflowError)"
      using Cons.prems True by (intro Cons.IH) auto
    ultimately show ?thesis by simp
  qed
qed

lemma turn_off_exceptions_ok:
  "\<forall>i\<in>set is. i < length (nb_exceptions nb) \<Longrightarrow>
   turn_off_exceptions mol is nb =
     Inr (nb\<lparr>nb_exceptions :=
        map (\<lambda>i. if i \<in> set is \<and> both_in mol (nb_exceptions nb ! i)
                  then zero_exception (nb_exceptions nb ! i) else nb_exceptions nb ! i)
          [0..<length (nb_exceptions nb)]\<rparr>)"
proof (induction "is" arbitrary: nb)
  case Nil
  then show ?case by (simp add: map_nth)
next
  case (Cons a "is")
  obtain i j q s e where p: "nb_exceptions nb ! a = (i, j, q, s, e)"
    by (cases "nb_exceptions nb ! a") auto
  show ?case
  proof (cases "i \<in> set mol \<and> j \<in> set mol")
    case False
    then have "turn_off_exceptions mol (a # is) nb = turn_off_exceptions mol is nb"
      using Cons.prems p by (auto simp: getExceptionParameters_def)
    also have "\<dots> = Inr (nb\<lparr>nb_exceptions :=
        map (\<lambda>i. if i \<in> set is \<and> both_in mol (nb_exceptions nb ! i)
                  then zero_exception (nb_exceptions nb ! i) else nb_exceptions nb ! i)
          [0..<length (nb_exceptions nb)]\<rparr>)"
      using Cons.prems by (intro Cons.IH) simp
    finally show ?thesis using False p by (auto simp: both_in_def)
  next
    case True
    let ?nb = "nb\<lparr>nb_exceptions := (nb_exceptions nb)[a := (i, j, 0, s, 0)]\<rparr>"
    have "turn_off_exceptions mol (a # is) nb = turn_off_exceptions mol is ?nb"
      using Cons.prems p True
      by (simp add: getExceptionParameters_def setExceptionParameters_def)
    also have "\<dots> = Inr (?nb\<lparr>nb_exceptions :=
        map (\<lambda>i. if i \<in> set is \<and> both_in mol (nb_exceptions ?nb ! i)
                  then zero_exception (nb_exceptions ?nb ! i) else nb_exceptions ?nb ! i)
          [0..<length (nb_exceptions ?nb)]\<rparr>)"
      using Cons.prems by (intro Cons.IH) simp
    also have "\<dots> = Inr (nb\<lparr>nb_exceptions :=
        map (\<lambda>i. if i \<in> set (a # is) \<and> both_in mol (nb_exceptions nb ! i)
                  then zero_exception (nb_exceptions nb ! i) else nb_exceptions nb ! i)
          [0..<length (nb_exceptions nb)]\<rparr>)"
    proof -
      have "map (\<lambda>k. if k \<in> set is \<and> both_in mol ((nb_exceptions nb)[a := (i, j, 0, s, 0)] ! k)
                  then zero_exception ((nb_exceptions nb)[a := (i, j, 0, s, 0)] ! k)
                  else (nb_exceptions nb)[a := (i, j, 0, s, 0)] ! k) [0..<length (nb_exceptions nb)] =
            map (\<lambda>k. if k \<in> set (a # is) \<and> both_in mol (nb_exceptions nb ! k)
                  then zero_exception (nb_exceptions nb ! k) else nb_exceptions nb ! k)
              [0..<length (nb_exceptions nb)]"
        using p True Cons.prems
        by (intro nth_equalityI) (auto simp: zero_exception_def both_in_def nth_list_update)
      then show ?thesis by (simp cong: if_cong)
    qed
    finally show ?thesis .
  qed
qed

lemma get_nonbonded_toy: "get_nonbonded toy_system = Inr toy_nonbonded"
  by (simp add: get_nonbonded_def toy_system_def)

lemma create_custom_LJ_mirrors_settings:
  assumes "get_nonbonded system = Inr nonbonded"
    and "valid_force_group force_group_1" "valid_force_group force_group_2"
  shows "\<exists>intermol_LJ intramol_LJ.
           create_custom_LJ system molecule solvent force_group_1 force_group_2 =
             Inr (system @ [CustomNonbonded intermol_LJ, CustomBond intramol_LJ]) \<and>
           cn_cutoff intermol_LJ = nb_cutoff nonbonded \<and>
           cn_long_range intermol_LJ = nb_dispersion nonbonded \<and>
           cn_exclusions intermol_LJ =
             map (\<lambda>e. (fst e, fst (snd e))) (nb_exceptions nonbonded)"
  by (simp add: create_custom_LJ_eq [OF assms])

lemma get_nonbonded_Inl: "get_nonbonded system = Inl e \<longleftrightarrow> nonbonded_forces system = [] \<and> e = IndexError"
  by (cases "nonbonded_forces system") (auto simp: get_nonbonded_def)

lemma get_nonbonded_Inr: "get_nonbonded system = Inr nb \<longleftrightarrow> (\<exists>rest. nonbonded_forces system = nb # rest)"
  by (cases "nonbonded_forces system") (auto simp: get_nonbonded_def)

lemma add_LJ_scaling_fails_iff:
  "add_LJ_scaling system molecule solvent lambda_value force_group_1 force_group_2 = Inl e
     \<longleftrightarrow> (nonbonded_forces system = [] \<and> e = IndexError) \<or>
         (nonbonded_forces system \<noteq> [] \<and>
          (force_group_error force_group_1 = Some e \<or>
           force_group_error force_group_1 = None \<and> force_group_error force_group_2 = Some e))"
proof (cases "get_nonbonded system")
  case (Inl a)
  then show ?thesis using get_nonbonded_Inl [of system a]
    by (auto simp: add_LJ_scaling_def)
next
  case (Inr nb)
  then have ne: "nonbonded_forces system \<noteq> []" using get_nonbonded_Inr [of system nb] by auto
  show ?thesis
  proof (cases "force_group_error force_group_1")
    case (Some e1)
    then show ?thesis using Inr ne by (auto simp: add_LJ_scaling_def setForceGroup_def)
  next
    case None
    show ?thesis
    proof (cases "force_group_error force_group_2")
      case (Some e2)
      then show ?thesis using Inr ne None
        by (auto simp: add_LJ_scaling_def setForceGroup_def setForceGroup_bond_def
            copy_particles_upt copy_exceptions_upt getNumParticles_def getNumExceptions_def)
    next
      case None2: None
      have "valid_force_group force_group_1" "valid_force_group force_group_2"
        using None None2 by (simp_all add: force_group_error_valid)
      then show ?thesis using Inr ne None None2 by (simp add: add_LJ_scaling_eq)
    qed
  qed
qed

lemma create_custom_LJ_fails_iff:
  "create_custom_LJ system molecule solvent force_group_1 force_group_2 = Inl e
     \<longleftrightarrow> (nonbonded_forces system = [] \<and> e = IndexError) \<or>
         (nonbonded_forces system \<noteq> [] \<and>
          (force_group_error force_group_1 = Some e \<or>
           force_group_error force_group_1 = None \<and> force_group_error force_group_2 = Some e))"
proof (cases "get_nonbonded system")
  case (Inl a)
  then show ?thesis using get_nonbonded_Inl [of system a]
    by (auto simp: create_custom_LJ_def)
next
  case (Inr nb)
  then have ne: "nonbonded_forces system \<noteq> []" using get_nonbonded_Inr [of system nb] by auto
  show ?thesis
  proof (cases "force_group_error force_group_1")
    case (Some e1)
    then show ?thesis using Inr ne by (auto simp: create_custom_LJ_def setForceGroup_def)
  next
    case None
    show ?thesis
    proof (cases "force_group_error force_group_2")
      case (Some e2)
      then show ?thesis using Inr ne None
        by (auto simp: create_custom_LJ_def setForceGroup_def setForceGroup_bond_def
            copy_particles_upt copy_exceptions_upt getNumParticles_def getNumExceptions_def)
    next
      case None2: None
      have "valid_force_group force_group_1" "valid_force_group force_group_2"
        using None None2 by (simp_all add: force_group_error_valid)
      then show ?thesis using Inr ne None None2 by (simp add: create_custom_LJ_eq)
    qed
  qed
qed

lemma turn_off_nonbonded_eq:
  assumes "get_nonbonded system = Inr nb" "valid_atoms molecule nb"
  shows "turn_off_nonbonded system molecule =
     Inr (put_nonbonded
       (nb\<lparr>nb_particles :=
           map (\<lambda>i. if i \<in> set molecule then zero_particle (nb_particles nb ! i)
                     else nb_particles nb ! i) [0..<length (nb_particles nb)],
          nb_exceptions :=
           map (\<lambda>e. if both_in molecule e then zero_exception e else e) (nb_exceptions nb)\<rparr>)
       system)"
proof -
  have v: "\<forall>i\<in>set molecule. i < length (nb_particles nb)"
    using assms(2) by (simp add: valid_atoms_def list_all_iff getNumParticles_def)
  let ?nb1 = "nb\<lparr>nb_particles :=
           map (\<lambda>i. if i \<in> set molecule then zero_particle (nb_particles nb ! i)
                     else nb_particles nb ! i) [0..<length (nb_particles nb)]\<rparr>"
  have e: "map (\<lambda>i. if i \<in> set [0..<length (nb_exceptions nb)] \<and> both_in molecule (nb_exceptions nb ! i)
                  then zero_exception (nb_exceptions nb ! i) else nb_exceptions nb ! i)
          [0..<length (nb_exceptions nb)] =
        map (\<lambda>e. if both_in molecule e then zero_exception e else e) (nb_exceptions nb)"
    by (rule nth_equalityI) simp_all
  have "turn_off_exceptions molecule [0..<length (nb_exceptions ?nb1)] ?nb1 =
     Inr (?nb1\<lparr>nb_exceptions :=
           map (\<lambda>e. if both_in molecule e then zero_exception e else e) (nb_exceptions nb)\<rparr>)"
    using e by (subst turn_off_exceptions_ok) (simp_all cong: if_cong)
  then show ?thesis
    using assms(1) turn_off_particles_ok [OF v]
    by (simp add: turn_off_nonbonded_def getNumExceptions_def)
qed

lemma turn_off_nonbonded_fails_iff:
  "turn_off_nonbonded system molecule = Inl e \<longleftrightarrow>
     (nonbonded_forces system = [] \<and> e = IndexError) \<or>
     (\<exists>nb rest. nonbonded_forces system = nb # rest \<and> \<not> valid_atoms molecule nb \<and>
        turn_off_particles molecule nb = Inl e \<and> (e = OpenMMException \<or> e = OverflowError))"
proof (cases "get_nonbonded system")
  case (Inl a)
  then show ?thesis using get_nonbonded_Inl [of system a]
    by (auto simp: turn_off_nonbonded_def)
next
  case (Inr nb)
  then obtain rest where r: "nonbonded_forces system = nb # rest"
    using get_nonbonded_Inr by blast
  show ?thesis
  proof (cases "valid_atoms molecule nb")
    case True
    then show ?thesis using Inr r by (simp add: turn_off_nonbonded_eq)
  next
    case False
    then have "\<not> (\<forall>i\<in>set molecule. i < length (nb_particles nb))"
      by (simp add: valid_atoms_def list_all_iff getNumParticles_def)
    then obtain e' where "turn_off_particles molecule nb = Inl e'"
      "e' = OpenMMException \<or> e' = OverflowError"
      using turn_off_particles_fail by blast
    then show ?thesis using Inr r False by (auto simp: turn_off_nonbonded_def)
  qed
qed

lemma offset_particles_ok:
  "\<forall>i\<in>set mol. i < length (nb_particles nb) \<Longrightarrow>
   ''lambda_electrostatics'' \<in> fst ` set (nb_globals nb) \<Longrightarrow>
   offset_particles mol nb =
     Inr (nb\<lparr>nb_particle_offsets := nb_particle_offsets nb @
        map (\<lambda>i. (''lambda_electrostatics'', i, fst (nb_particles nb ! i), 0, 0)) mol\<rparr>)"
  by (induction mol arbitrary: nb)
     (simp_all add: getParticleParameters_def addParticleParameterOffset_def case_prod_beta)

lemma offset_particles_fail:
  "\<not> (\<forall>i\<in>set mol. i < length (nb_particles nb)) \<Longrightarrow>
   ''lambda_electrostatics'' \<in> fst ` set (nb_globals nb) \<Longrightarrow>
   \<exists>e. offset_particles mol nb = Inl e \<and> (e = OpenMMException \<or> e = OverflowError)"
proof (induction mol arbitrary: nb)
  case Nil
  then show ?case by simp
next
  case (Cons a mol)
  show ?case
  proof (cases "a < length (nb_particles nb)")
    case False
    then show ?thesis using index_error_cases [of a] by (simp add: getParticleParameters_def)
  next
    case True
    let ?nb = "nb\<lparr>nb_particle_offsets := nb_particle_offsets nb @
                 [(''lambda_electrostatics'', a, fst (nb_particles nb ! a), 0, 0)]\<rparr>"
    have "offset_particles (a # mol) nb = offset_particles mol ?nb"
      using True Cons.prems(2)
      by (simp add: getParticleParameters_def addParticleParameterOffset_def case_prod_beta)
    moreover have "\<exists>e. offset_particles mol ?nb = Inl e \<and> (e = OpenMMException \<or> e = OverflowError)"
      using Cons.prems True by (intro Cons.IH) auto
    ultimately show ?thesis by simp
  qed
qed

lemma offset_exceptions_ok:
  "\<forall>i\<in>set is. i < length (nb_exceptions nb) \<Longrightarrow>
   ''lambda_electrostatics'' \<in> fst ` set (nb_globals nb) \<Longrightarrow>
   offset_exceptions mol is nb =
     Inr (nb\<lparr>nb_exception_offsets := nb_exception_offsets nb @
        map (\<lambda>i. (''lambda_electrostatics'', i, fst (snd (snd (nb_exceptions nb ! i))), 0, 0))
          (filter (\<lambda>i. both_in mol (nb_exceptions nb ! i)) is)\<rparr>)"
  by (induction "is" arbitrary: nb)
     (simp_all add: getExceptionParameters_def addExceptionParameterOffset_def case_prod_beta
        both_in_def)

lemma add_lambda_elec_eq:
  assumes "get_nonbonded system = Inr nb" "valid_atoms molecule nb"
  shows "add_lambda_elec system molecule lambda_value =
     Inr (put_nonbonded
       (nb\<lparr>nb_globals := nb_globals nb @ [(''lambda_electrostatics'', lambda_value)],
          nb_particle_offsets := nb_particle_offsets nb @
            map (\<lambda>i. (''lambda_electrostatics'', i, fst (nb_particles nb ! i), 0, 0)) molecule,
          nb_exception_offsets := nb_exception_offsets nb @
            map (\<lambda>i. (''lambda_electrostatics'', i, fst (snd (snd (nb_exceptions nb ! i))), 0, 0))
              (filter (\<lambda>i. both_in molecule (nb_exceptions nb ! i))
                 [0..<length (nb_exceptions nb)])\<rparr>)
       system)"
proof -
  have v: "\<forall>i\<in>set molecule. i < length (nb_particles nb)"
    using assms(2) by (simp add: valid_atoms_def list_all_iff getNumParticles_def)
  show ?thesis
    using assms(1) v
    by (simp add: add_lambda_elec_def addGlobalParameter_def offset_particles_ok
        offset_exceptions_ok getNumExceptions_def)
qed

lemma add_lambda_elec_fails_iff:
  "add_lambda_elec system molecule lambda_value = Inl e \<longleftrightarrow>
     (nonbonded_forces system = [] \<and> e = IndexError) \<or>
     (\<exists>nb rest. nonbonded_forces system = nb # rest \<and> \<not> valid_atoms molecule nb \<and>
        offset_particles molecule (addGlobalParameter nb ''lambda_electrostatics'' lambda_value)
          = Inl e \<and>
        (e = OpenMMException \<or> e = OverflowError))"
proof (cases "get_nonbonded system")
  case (Inl a)
  then show ?thesis using get_nonbonded_Inl [of system a]
    by (auto simp: add_lambda_elec_def)
next
  case (Inr nb)
  then obtain rest where r: "nonbonded_forces system = nb # rest"
    using get_nonbonded_Inr by blast
  show ?thesis
  proof (cases "valid_atoms molecule nb")
    case True
    then show ?thesis using Inr r by (simp add: add_lambda_elec_eq)
  next
    case False
    then have "\<not> (\<forall>i\<in>set molecule. i < length (nb_particles nb))"
      by (simp add: valid_atoms_def list_all_iff getNumParticles_def)
    then obtain e' where
      "offset_particles molecule (addGlobalParameter nb ''lambda_electrostatics'' lambda_value)
         = Inl e'"
      "e' = OpenMMException \<or> e' = OverflowError"
      using offset_particles_fail [of molecule
          "addGlobalParameter nb ''lambda_electrostatics'' lambda_value"]
      by (auto simp: addGlobalParameter_def)
    then show ?thesis using Inr r False by (auto simp: add_lambda_elec_def)
  qed
qed

lemma nonbonded_forces_put:
  "nonbonded_forces (put_nonbonded nb' system) =
     (case nonbonded_forces system of [] \<Rightarrow> [] | nb # rest \<Rightarrow> nb' # rest)"
  by (induction nb' system rule: put_nonbonded.induct) simp_all

lemma get_nonbonded_put:
  "get_nonbonded system = Inr nb \<Longrightarrow> get_nonbonded (put_nonbonded nb' system) = Inr nb'"
  by (cases "nonbonded_forces system") (simp_all add: get_nonbonded_def nonbonded_forces_put)

lemma sum_list_single:
  "distinct xs \<Longrightarrow> a \<in> set xs \<Longrightarrow> (\<Sum>i\<leftarrow>xs. if i = a then f i else 0) = (f a :: real)"
proof (induction xs)
  case Nil
  then show ?case by simp
next
  case (Cons x xs)
  show ?case
  proof (cases "x = a")
    case True
    then have "a \<notin> set xs" using Cons.prems by simp
    then have "(\<Sum>i\<leftarrow>xs. if i = a then f i else 0) = 0"
      by (induction xs) auto
    then show ?thesis using True by simp
  next
    case False
    then show ?thesis using Cons by simp
  qed
qed

section \<open>The text and the value of the expressions\<close>

lemma decimal_literals:
  "decimal ''4'' = 4" "decimal ''6'' = 6" "decimal ''12'' = 12" "decimal ''1'' = 1"
  "decimal ''1.0'' = 1" "decimal ''0.5'' = 1/2"
  by (simp_all add: decimal_def digits_value_def)

lemma softcore_LJ_expression_text:
  "render_expression softcore_LJ_expression =
     ''(lambda_sterics^softcore_a)*4*epsilon*x*(x-1.0);'' @
     ''x=(sigma/reff_sterics)^6;'' @
     ''reff_sterics=sigma*((softcore_alpha*(1.0-lambda_sterics)^softcore_b+(r/sigma)^softcore_c))^(1/softcore_c);'' @
     ''sigma=0.5*(sigma1+sigma2);'' @
     ''epsilon=sqrt(epsilon1*epsilon2);''"
  by (simp add: render_expression_def softcore_LJ_expression_def)

lemma softcore_LJ_expression_parsed: "parsed_expression softcore_LJ_expression"
  by (simp add: parsed_expression_def softcore_LJ_expression_def)

lemma bond_LJ_expression_text:
  "parsed_expression bond_LJ_expression \<and>
   render_expression bond_LJ_expression =
     filter (\<lambda>c. c \<noteq> CHR '' '') ''4*epsilon*((sigma/r)^12 - (sigma/r)^6);''"
  by (simp add: parsed_expression_def render_expression_def bond_LJ_expression_def)

lemma pair_LJ_expression_text:
  "parsed_expression pair_LJ_expression \<and>
   render_expression pair_LJ_expression =
     filter (\<lambda>c. c \<noteq> CHR '' '')
       (''4*epsilon*((sigma/r)^12 - (sigma/r)^6);'' @
        ''sigma=0.5*(sigma1+sigma2);'' @
        ''epsilon=sqrt(epsilon1*epsilon2);'')"
  by (simp add: parsed_expression_def render_expression_def pair_LJ_expression_def)

lemma softcore_variables:
  fixes sa ea sb eb r l :: real
  assumes "cn_globals f = softcore_globals lv" "cn_per_particle f = [''sigma'', ''epsilon'']"
  defines "env \<equiv> (\<lambda>v. case pair_variables (cn_per_particle f) [sa, ea] [sb, eb] r v of
              Some x \<Rightarrow> Some x
            | None \<Rightarrow> if v \<in> fst ` set (cn_globals f)
                then Some (setParameter (parameter_values (cn_globals f)) ''lambda_sterics'' l v)
                else None)"
  shows "env ''r'' = Some r" "env ''sigma1'' = Some sa" "env ''sigma2'' = Some sb"
    "env ''epsilon1'' = Some ea" "env ''epsilon2'' = Some eb"
    "env ''lambda_sterics'' = Some l" "env ''softcore_a'' = Some 1" "env ''softcore_b'' = Some 1"
    "env ''softcore_c'' = Some 6" "env ''softcore_alpha'' = Some (1/2)"
  unfolding env_def assms(1,2)
  by (simp_all add: pair_variables_def softcore_globals_def setParameter_def parameter_values_def)

lemma softcore_eval:
  assumes "env ''r'' = Some r" "env ''sigma1'' = Some s1" "env ''sigma2'' = Some s2"
    "env ''epsilon1'' = Some e1" "env ''epsilon2'' = Some e2"
    "env ''lambda_sterics'' = Some l" "env ''softcore_a'' = Some 1" "env ''softcore_b'' = Some 1"
    "env ''softcore_c'' = Some 6" "env ''softcore_alpha'' = Some (1/2)"
    and "0 \<le> l" "l \<le> 1" "0 < r" "0 < s1 + s2" "0 \<le> e1 * e2"
  shows "evaluate env softcore_LJ_expression =
     Some (let epsilon = sqrt (e1 * e2);
               sigma = (s1 + s2) / 2;
               reff = sigma * root 6 ((1/2) * (1 - l) + (r / sigma) ^ 6);
               x = (sigma / reff) ^ 6
           in l * 4 * epsilon * x * (x - 1))"
proof -
  let ?s = "(s1 + s2) / 2"
  let ?e = "sqrt (e1 * e2)"
  let ?env1 = "env(''epsilon'' := Some ?e)"
  let ?env2 = "?env1(''sigma'' := Some ?s)"
  have s: "0 < ?s" using assms by simp
  have q: "0 < r / ?s" using assms s by simp
  let ?in = "(1/2) * (1 - l) + (r / ?s) ^ 6"
  have pos: "0 < ?in" using assms q by (intro add_nonneg_pos) simp_all
  let ?reff = "?s * root 6 ?in"
  have reff: "0 < ?reff" using s pos by simp
  let ?env3 = "?env2(''reff_sterics'' := Some ?reff)"
  let ?x = "(?s / ?reff) ^ 6"
  let ?env4 = "?env3(''x'' := Some ?x)"
  have p6: "(r / ?s) powr 6 = (r / ?s) ^ 6"
    using q powr_realpow [of "r / ?s" 6] by simp
  have rt: "?in powr (1/6) = root 6 ?in"
    using pos root_powr_inverse [of 6 ?in] by simp
  have pl: "pow_value (1 - l) 1 = Some (1 - l)"
    using assms by (simp add: pow_value_def)
  have pl2: "pow_value l 1 = Some l"
    using assms by (simp add: pow_value_def)
  have pq: "pow_value (r / ?s) 6 = Some ((r / ?s) ^ 6)"
    using q p6 by (simp add: pow_value_def)
  have pin: "pow_value ?in (1/6) = Some (root 6 ?in)"
    using pos rt by (simp add: pow_value_def)
  have e1: "expr_value env (Sqrt (Mul (Var ''epsilon1'') (Var ''epsilon2''))) = Some ?e"
    using assms by (simp add: binary_def)
  have e2: "expr_value ?env1 (Mul (Num ''0.5'') (Paren (Add (Var ''sigma1'') (Var ''sigma2'')))) = Some ?s"
    using assms by (simp add: binary_def decimal_literals)
  have l2: "?env2 ''sigma'' = Some ?s" "?env2 ''r'' = Some r" "?env2 ''lambda_sterics'' = Some l"
    "?env2 ''softcore_b'' = Some 1" "?env2 ''softcore_c'' = Some 6"
    "?env2 ''softcore_alpha'' = Some (1/2)"
    using assms(1-10) by simp_all
  have ns: "?s \<noteq> 0" using s by simp
  have six: "(6::real) \<noteq> 0" by simp
  have e3: "expr_value ?env2 (Mul (Var ''sigma'')
                (Pow (Paren (Paren
                        (Add (Mul (Var ''softcore_alpha'')
                                  (Pow (Paren (Sub (Num ''1.0'') (Var ''lambda_sterics'')))
                                       (Var ''softcore_b'')))
                             (Pow (Paren (Div (Var ''r'') (Var ''sigma'')))
                                  (Var ''softcore_c'')))))
                     (Paren (Div (Num ''1'') (Var ''softcore_c''))))) = Some ?reff"
    by (simp only: expr_value.simps l2 binary_def option.case decimal_literals ns six if_False pl pq pin)
  have xq: "0 < ?s / ?reff" using s reff by simp
  have px: "pow_value (?s / ?reff) 6 = Some ?x"
    using xq powr_realpow [of "?s / ?reff" 6] by (simp add: pow_value_def)
  have ne: "?reff \<noteq> 0" using reff by (metis less_irrefl)
  have l3: "?env3 ''sigma'' = Some ?s" "?env3 ''reff_sterics'' = Some ?reff" by simp_all
  have e4: "expr_value ?env3 (Pow (Paren (Div (Var ''sigma'') (Var ''reff_sterics''))) (Num ''6''))
              = Some ?x"
    by (simp only: expr_value.simps l3 binary_def option.case ne if_False decimal_literals px)
  have l4: "?env4 ''lambda_sterics'' = Some l" "?env4 ''softcore_a'' = Some 1"
    "?env4 ''epsilon'' = Some ?e" "?env4 ''x'' = Some ?x"
    using assms(1-10) by simp_all
  have e5: "expr_value ?env4
              (Mul (Mul (Mul (Mul (Paren (Pow (Var ''lambda_sterics'') (Var ''softcore_a'')))
                                  (Num ''4''))
                             (Var ''epsilon''))
                        (Var ''x''))
                   (Paren (Sub (Var ''x'') (Num ''1.0''))))
              = Some (l * 4 * ?e * ?x * (?x - 1))"
    by (simp only: expr_value.simps l4 binary_def option.case decimal_literals pl2)
  show ?thesis
    unfolding evaluate_def softcore_LJ_expression_def
    by (simp only: expression.simps bind_intermediates.simps Let_def fst_conv snd_conv
        e1 e2 e3 e4 e5)
qed

lemma softcore_pair_energy:
  assumes "cn_energy f = softcore_LJ_expression"
    and "cn_globals f = softcore_globals lv" "cn_per_particle f = [''sigma'', ''epsilon'']"
    and "0 \<le> l" "l \<le> 1" "0 < r" "0 < s1 + s2" "0 \<le> e1 * e2"
  shows "pair_energy f (setParameter (parameter_values (cn_globals f)) ''lambda_sterics'' l)
           [s1, e1] [s2, e2] r =
     Some (let epsilon = sqrt (e1 * e2);
               sigma = (s1 + s2) / 2;
               reff = sigma * root 6 ((1/2) * (1 - l) + (r / sigma) ^ 6);
               x = (sigma / reff) ^ 6
           in l * 4 * epsilon * x * (x - 1))"
  unfolding pair_energy_def assms(1)
  by (rule softcore_eval [OF softcore_variables [OF assms(2,3)] assms(4-8)])

lemma softcore_eval_zero_sigma:
  assumes "env ''r'' = Some r" "env ''sigma1'' = Some 0" "env ''sigma2'' = Some 0"
  shows "evaluate env softcore_LJ_expression = None"
proof -
  define ve where "ve = expr_value env (Sqrt (Mul (Var ''epsilon1'') (Var ''epsilon2'')))"
  let ?env1 = "env(''epsilon'' := ve)"
  have e2: "expr_value ?env1 (Mul (Num ''0.5'') (Paren (Add (Var ''sigma1'') (Var ''sigma2'')))) = Some 0"
    using assms by (simp add: binary_def decimal_literals)
  let ?env2 = "?env1(''sigma'' := Some 0)"
  have d: "expr_value ?env2 (Div (Var ''r'') (Var ''sigma'')) = None"
    using assms by (simp add: binary_def)
  have e3: "expr_value ?env2 (Mul (Var ''sigma'')
                (Pow (Paren (Paren
                        (Add (Mul (Var ''softcore_alpha'')
                                  (Pow (Paren (Sub (Num ''1.0'') (Var ''lambda_sterics'')))
                                       (Var ''softcore_b'')))
                             (Pow (Paren (Div (Var ''r'') (Var ''sigma'')))
                                  (Var ''softcore_c'')))))
                     (Paren (Div (Num ''1'') (Var ''softcore_c''))))) = None"
    unfolding expr_value.simps(3,5,6,8) d by (simp add: binary_def split: option.splits)
  let ?env3 = "?env2(''reff_sterics'' := None)"
  have e4: "expr_value ?env3 (Pow (Paren (Div (Var ''sigma'') (Var ''reff_sterics''))) (Num ''6''))
              = None"
    by (simp add: binary_def)
  let ?env4 = "?env3(''x'' := None)"
  have e5: "expr_value ?env4
              (Mul (Mul (Mul (Mul (Paren (Pow (Var ''lambda_sterics'') (Var ''softcore_a'')))
                                  (Num ''4''))
                             (Var ''epsilon''))
                        (Var ''x''))
                   (Paren (Sub (Var ''x'') (Num ''1.0'')))) = None"
    by (simp add: binary_def split: option.splits)
  show ?thesis
    unfolding evaluate_def softcore_LJ_expression_def
    by (simp only: expression.simps bind_intermediates.simps Let_def fst_conv snd_conv
        ve_def [symmetric] e2 e3 e4 e5)
qed

lemma softcore_pair_energy_zero_sigma:
  fixes l r :: real
  assumes "cn_energy f = softcore_LJ_expression"
    and "cn_globals f = softcore_globals lv" "cn_per_particle f = [''sigma'', ''epsilon'']"
  shows "pair_energy f (setParameter (parameter_values (cn_globals f)) ''lambda_sterics'' l)
           [0, e1] [0, e2] r = None"
  unfolding pair_energy_def assms(1)
  using softcore_variables [OF assms(2,3), where sa = 0 and ea = e1 and sb = 0 and eb = e2
      and r = r and l = l]
  by (intro softcore_eval_zero_sigma)

lemma bond_LJ_value:
  assumes "cb_energy f = bond_LJ_expression" "cb_per_bond f = [''sigma'', ''epsilon'']"
    and "0 < r" "0 < s"
  shows "bond_energy f [s, e] r = Some (4 * e * ((s / r) ^ 12 - (s / r) ^ 6))"
proof -
  have q: "0 < s / r" using assms by simp
  have p: "pow_value (s / r) 12 = Some ((s / r) ^ 12)" "pow_value (s / r) 6 = Some ((s / r) ^ 6)"
    using q powr_realpow [of "s / r" 12] powr_realpow [of "s / r" 6]
    by (simp_all add: pow_value_def)
  have nz: "r \<noteq> 0" using assms by simp
  have l: "bond_variables [''sigma'', ''epsilon''] [s, e] r ''sigma'' = Some s"
    "bond_variables [''sigma'', ''epsilon''] [s, e] r ''epsilon'' = Some e"
    "bond_variables [''sigma'', ''epsilon''] [s, e] r ''r'' = Some r"
    by (simp_all add: bond_variables_def)
  show ?thesis
    unfolding bond_energy_def evaluate_def assms(1,2) bond_LJ_expression_def
    by (simp only: expression.simps bind_intermediates.simps
        expr_value.simps l binary_def option.case decimal_literals nz if_False p)
qed

section \<open>What the production loop computes\<close>

lemma setParameter_twice [simp]:
  "setParameter (setParameter P name a) name b = setParameter P name b"
  by (simp add: setParameter_def)

lemma evaluate_all_eq:
  "evaluate_all potential pr k n l0 ls (ctx, u) =
     (if ls = [] then ctx else context_setParameter (parameter_name pr) (last ls) ctx,
      \<lambda>k' l' n'. if k' = k \<and> n' = n \<and> l0 \<le> l' \<and> l' < l0 + length ls
                 then potential (setParameter (ctx_parameters ctx) (parameter_name pr) (ls ! (l' - l0)))
                        (ctx_microstate ctx) / kT pr
                 else u k' l' n')"
proof (induction ls arbitrary: l0 ctx u)
  case Nil
  then show ?case by (auto simp: fun_eq_iff)
next
  case (Cons lb2 rest)
  let ?ctx1 = "context_setParameter (parameter_name pr) lb2 ctx"
  let ?u1 = "array_set u k l0 n (getPotentialEnergy potential ?ctx1 / kT pr)"
  have "evaluate_all potential pr k n l0 (lb2 # rest) (ctx, u) =
        evaluate_all potential pr k n (Suc l0) rest (?ctx1, ?u1)"
    by (simp add: Let_def)
  also have "\<dots> =
     (if rest = [] then ?ctx1 else context_setParameter (parameter_name pr) (last rest) ?ctx1,
      \<lambda>k' l' n'. if k' = k \<and> n' = n \<and> Suc l0 \<le> l' \<and> l' < Suc l0 + length rest
                 then potential (setParameter (ctx_parameters ?ctx1) (parameter_name pr) (rest ! (l' - Suc l0)))
                        (ctx_microstate ?ctx1) / kT pr
                 else ?u1 k' l' n')"
    by (rule Cons.IH)
  also have "\<dots> =
     (if lb2 # rest = [] then ctx else context_setParameter (parameter_name pr) (last (lb2 # rest)) ctx,
      \<lambda>k' l' n'. if k' = k \<and> n' = n \<and> l0 \<le> l' \<and> l' < l0 + length (lb2 # rest)
                 then potential (setParameter (ctx_parameters ctx) (parameter_name pr) ((lb2 # rest) ! (l' - l0)))
                        (ctx_microstate ctx) / kT pr
                 else u k' l' n')"
  proof -
    have c: "(if rest = [] then ?ctx1 else context_setParameter (parameter_name pr) (last rest) ?ctx1) =
          context_setParameter (parameter_name pr) (last (lb2 # rest)) ctx"
      by (simp add: context_setParameter_def)
    have u: "(if k' = k \<and> n' = n \<and> Suc l0 \<le> l' \<and> l' < Suc l0 + length rest
                 then potential (setParameter (ctx_parameters ?ctx1) (parameter_name pr) (rest ! (l' - Suc l0)))
                        (ctx_microstate ?ctx1) / kT pr
                 else ?u1 k' l' n') =
             (if k' = k \<and> n' = n \<and> l0 \<le> l' \<and> l' < l0 + length (lb2 # rest)
                 then potential (setParameter (ctx_parameters ctx) (parameter_name pr) ((lb2 # rest) ! (l' - l0)))
                        (ctx_microstate ctx) / kT pr
                 else u k' l' n')" for k' l' n'
    proof (cases "l' = l0")
      case True
      then show ?thesis
        by (simp add: array_set_def getPotentialEnergy_def context_setParameter_def)
    next
      case False
      then have "(lb2 # rest) ! (l' - l0) = rest ! (l' - Suc l0)" if "l0 \<le> l'"
        using that by (simp add: nth_Cons')
      then show ?thesis
        using False by (auto simp: array_set_def context_setParameter_def)
    qed
    show ?thesis unfolding c using u by simp
  qed
  finally show ?case .
qed

lemma evaluate_all_microstate:
  "ctx_microstate (fst (evaluate_all potential pr k n l0 ls (ctx, u))) = ctx_microstate ctx"
  by (simp add: evaluate_all_eq context_setParameter_def)

lemma evaluate_all_parameters:
  "setParameter (ctx_parameters (fst (evaluate_all potential pr k n l0 ls (ctx, u))))
       (parameter_name pr) v =
   setParameter (ctx_parameters ctx) (parameter_name pr) v"
  by (simp add: evaluate_all_eq context_setParameter_def)

lemma evaluate_all_array:
  "snd (evaluate_all potential pr k n 0 ls (ctx, u)) k' l' n' =
     (if k' = k \<and> n' = n \<and> l' < length ls
      then potential (setParameter (ctx_parameters ctx) (parameter_name pr) (ls ! l'))
             (ctx_microstate ctx) / kT pr
      else u k' l' n')"
  by (simp add: evaluate_all_eq)

lemma production_blocks_eq:
  assumes "a \<le> b"
  shows "ctx_microstate (fst (production_blocks step potential pr k lb1 [a..<b] (ctx, u))) =
           ((step (output_freq pr) (setParameter (ctx_parameters ctx) (parameter_name pr) lb1))
              ^^ (b - a)) (ctx_microstate ctx) \<and>
         (\<forall>v. setParameter (ctx_parameters (fst (production_blocks step potential pr k lb1 [a..<b] (ctx, u)))) (parameter_name pr) v =
              setParameter (ctx_parameters ctx) (parameter_name pr) v) \<and>
         (\<forall>k' l' n'. snd (production_blocks step potential pr k lb1 [a..<b] (ctx, u)) k' l' n' =
            (if k' = k \<and> l' < length (lambda_values pr) \<and> a \<le> n' \<and> n' < b
             then potential (setParameter (ctx_parameters ctx) (parameter_name pr) (lambda_values pr ! l'))
                    (((step (output_freq pr) (setParameter (ctx_parameters ctx) (parameter_name pr) lb1))
                        ^^ Suc (n' - a)) (ctx_microstate ctx)) / kT pr
             else u k' l' n'))"
  using assms
proof (induction "b - a" arbitrary: a ctx u)
  case 0
  then show ?case by simp
next
  case (Suc c)
  then have ab: "a < b" and c: "c = b - Suc a" and le: "Suc a \<le> b" by simp_all
  let ?name = "parameter_name pr"
  let ?P = "ctx_parameters ctx"
  let ?P1 = "setParameter ?P ?name lb1"
  let ?f = "step (output_freq pr) ?P1"
  let ?m = "ctx_microstate ctx"
  let ?ctx2 = "simulation_step step (output_freq pr) (context_setParameter ?name lb1 ctx)"
  let ?e = "evaluate_all potential pr k a 0 (lambda_values pr) (?ctx2, u)"
  have m2: "ctx_microstate ?ctx2 = ?f ?m" and p2: "ctx_parameters ?ctx2 = ?P1"
    by (simp_all add: simulation_step_def context_setParameter_def)
  have unfold: "production_blocks step potential pr k lb1 [a..<b] (ctx, u) =
                production_blocks step potential pr k lb1 [Suc a..<b] (fst ?e, snd ?e)"
    using ab by (simp add: upt_conv_Cons Let_def)
  have me: "ctx_microstate (fst ?e) = ?f ?m"
    by (simp add: evaluate_all_microstate m2)
  have pe: "setParameter (ctx_parameters (fst ?e)) ?name v = setParameter ?P ?name v" for v
    by (simp add: evaluate_all_parameters p2)
  have ue: "snd ?e k' l' n' =
     (if k' = k \<and> n' = a \<and> l' < length (lambda_values pr)
      then potential (setParameter ?P ?name (lambda_values pr ! l')) (?f ?m) / kT pr
      else u k' l' n')" for k' l' n'
    by (simp add: evaluate_all_array m2 p2)
  note IH = Suc.hyps(1) [OF c le, of "fst ?e" "snd ?e", unfolded pe me]
  have pow: "(?f ^^ (b - Suc a)) (?f ?m) = (?f ^^ (b - a)) ?m"
  proof -
    have "b - a = Suc (b - Suc a)" using ab by simp
    then show ?thesis by (simp add: funpow_swap1)
  qed
  have pow': "(?f ^^ Suc (n' - Suc a)) (?f ?m) = (?f ^^ Suc (n' - a)) ?m" if "Suc a \<le> n'" for n'
  proof -
    have "Suc (n' - a) = Suc (Suc (n' - Suc a))" using that by simp
    then show ?thesis by (simp add: funpow_swap1)
  qed
  note IH1 = IH [THEN conjunct1]
  note IH2 = IH [THEN conjunct2, THEN conjunct1, rule_format]
  note IH3 = IH [THEN conjunct2, THEN conjunct2, rule_format]
  show ?case
    unfolding unfold
  proof (intro conjI allI)
    show "ctx_microstate (fst (production_blocks step potential pr k lb1 [Suc a..<b] (fst ?e, snd ?e))) =
          (?f ^^ (b - a)) ?m"
      using IH1 unfolding pow .
  next
    fix v
    show "setParameter (ctx_parameters (fst (production_blocks step potential pr k lb1 [Suc a..<b] (fst ?e, snd ?e)))) ?name v =
          setParameter ?P ?name v"
      by (rule IH2)
  next
    fix k' l' n'
    show "snd (production_blocks step potential pr k lb1 [Suc a..<b] (fst ?e, snd ?e)) k' l' n' =
            (if k' = k \<and> l' < length (lambda_values pr) \<and> a \<le> n' \<and> n' < b
             then potential (setParameter ?P ?name (lambda_values pr ! l'))
                    ((?f ^^ Suc (n' - a)) ?m) / kT pr
             else u k' l' n')"
    proof (cases "Suc a \<le> n'")
      case True
      have "snd ?e k' l' n' = u k' l' n'" using True by (simp add: ue)
      then show ?thesis
        unfolding IH3 [of k' l' n'] pow' [OF True] using True by simp
    next
      case False
      then show ?thesis
        unfolding IH3 [of k' l' n'] ue using ab by (cases "n' = a") simp_all
    qed
  qed
qed

lemma alchemical_run_eq:
  assumes "k \<le> length (lambda_values pr)"
    and "ctx_microstate ctx = state_start step pr P x k"
    and "\<And>v. setParameter (ctx_parameters ctx) (parameter_name pr) v =
             setParameter P (parameter_name pr) v"
  shows "ctx_microstate (fst (alchemical_run step potential pr k (drop k (lambda_values pr)) (ctx, u))) =
           state_start step pr P x (length (lambda_values pr)) \<and>
         (\<forall>k' l' n'. snd (alchemical_run step potential pr k (drop k (lambda_values pr)) (ctx, u)) k' l' n' =
            (if k \<le> k' \<and> k' < length (lambda_values pr) \<and> l' < length (lambda_values pr) \<and>
                n' < total_iterations pr
             then potential (state_parameters pr P l') (sampled_microstate step pr P x k' n') / kT pr
             else u k' l' n'))"
  using assms
proof (induction "length (lambda_values pr) - k" arbitrary: k ctx u)
  case 0
  then have "k = length (lambda_values pr)" by simp
  then show ?case using "0.prems" by simp
next
  case (Suc c)
  let ?ls = "lambda_values pr"
  let ?name = "parameter_name pr"
  let ?N = "total_iterations pr"
  have kK: "k < length ?ls" and c: "c = length ?ls - Suc k" and le: "Suc k \<le> length ?ls"
    using Suc.hyps(2) by simp_all
  let ?Pk = "state_parameters pr P k"
  let ?ctx2 = "simulation_step step (equil_steps pr) (context_setParameter ?name (?ls ! k) ctx)"
  let ?pb = "production_blocks step potential pr k (?ls ! k) [0..<?N] (?ctx2, u)"
  let ?m0 = "step (equil_steps pr) ?Pk (state_start step pr P x k)"
  let ?f = "step (output_freq pr) ?Pk"
  have p2: "ctx_parameters ?ctx2 = ?Pk"
    using Suc.prems(3) [of "?ls ! k"]
    by (simp add: simulation_step_def context_setParameter_def state_parameters_def)
  have m2: "ctx_microstate ?ctx2 = ?m0"
    using Suc.prems(2) Suc.prems(3) [of "?ls ! k"]
    by (simp add: simulation_step_def context_setParameter_def state_parameters_def)
  have same: "setParameter ?Pk ?name v = setParameter P ?name v" for v
    by (simp add: state_parameters_def)
  have pk: "setParameter ?Pk ?name (?ls ! k) = ?Pk"
    by (simp add: state_parameters_def)
  note B = production_blocks_eq [of 0 ?N step potential pr k "?ls ! k" ?ctx2 u,
      unfolded p2 m2 pk same, simplified]
  have B1: "ctx_microstate (fst ?pb) = state_start step pr P x (Suc k)"
    using B by (simp add: state_parameters_def)
  have B2: "setParameter (ctx_parameters (fst ?pb)) ?name v = setParameter P ?name v" for v
    using B by simp
  have B3: "snd ?pb k' l' n' =
     (if k' = k \<and> l' < length ?ls \<and> n' < ?N
      then potential (state_parameters pr P l') (sampled_microstate step pr P x k n') / kT pr
      else u k' l' n')" for k' l' n'
    using B by (simp add: state_parameters_def sampled_microstate_def)
  have unfold: "alchemical_run step potential pr k (drop k ?ls) (ctx, u) =
                alchemical_run step potential pr (Suc k) (drop (Suc k) ?ls) (fst ?pb, snd ?pb)"
    using kK by (simp add: Let_def flip: Cons_nth_drop_Suc)
  note IH = Suc.hyps(1) [OF c le B1 B2, of "snd ?pb"]
  note IH1 = IH [THEN conjunct1]
  note IH2 = IH [THEN conjunct2, rule_format]
  show ?case
    unfolding unfold
  proof (intro conjI allI)
    show "ctx_microstate (fst (alchemical_run step potential pr (Suc k) (drop (Suc k) ?ls) (fst ?pb, snd ?pb))) =
           state_start step pr P x (length ?ls)"
      by (rule IH1)
  next
    fix k' l' n'
    show "snd (alchemical_run step potential pr (Suc k) (drop (Suc k) ?ls) (fst ?pb, snd ?pb)) k' l' n' =
            (if k \<le> k' \<and> k' < length ?ls \<and> l' < length ?ls \<and> n' < ?N
             then potential (state_parameters pr P l') (sampled_microstate step pr P x k' n') / kT pr
             else u k' l' n')"
      unfolding IH2 [of k' l' n'] B3 using kK by (cases "k' = k") auto
  qed
qed

section \<open>What the decorrelation cell computes\<close>

lemma decorrelate_state_ok:
  assumes "accepted_indices T (retained_indices detect subsample T u k)"
  shows "decorrelate_state detect subsample K T k (u, N) =
     Inr (\<lambda>k' l n. if k' = k \<and> l < K \<and> n < length (retained_indices detect subsample T u k)
                   then u k l (retained_indices detect subsample T u k ! n) else u k' l n,
          N(k := length (retained_indices detect subsample T u k)))"
  using assms
  by (simp add: decorrelate_state_def retained_indices_def accepted_indices_def
      case_prod_beta Let_def cong: if_cong)


lemma diagonal_series_cong:
  "(\<And>n. n < T \<Longrightarrow> u k k n = u' k k n) \<Longrightarrow> diagonal_series u k T = diagonal_series u' k T"
  by (simp add: diagonal_series_def)

lemma retained_indices_cong:
  "(\<And>n. n < T \<Longrightarrow> u k k n = u' k k n) \<Longrightarrow>
   retained_indices detect subsample T u k = retained_indices detect subsample T u' k"
  by (simp add: retained_indices_def diagonal_series_cong [of T u k u'])

lemma decorrelate_eq:
  assumes "a \<le> b"
    and "\<And>k. a \<le> k \<Longrightarrow> k < b \<Longrightarrow>
           accepted_indices T (retained_indices detect subsample T u0 k)"
    and "\<And>k l n. a \<le> k \<Longrightarrow> u k l n = u0 k l n"
  shows "decorrelate detect subsample K T [a..<b] (u, N) =
     Inr (\<lambda>k l n. if a \<le> k \<and> k < b \<and> l < K \<and>
                      n < length (retained_indices detect subsample T u0 k)
                   then u0 k l (retained_indices detect subsample T u0 k ! n) else u k l n,
          \<lambda>k. if a \<le> k \<and> k < b then length (retained_indices detect subsample T u0 k)
               else N k)"
  using assms
proof (induction "b - a" arbitrary: a u N)
  case 0
  then have "b = a" by simp
  then show ?case by (auto simp: fun_eq_iff)
next
  case (Suc c)
  then have ab: "a < b" and c: "c = b - Suc a" and le: "Suc a \<le> b" by simp_all
  let ?R = "\<lambda>k. retained_indices detect subsample T u0 k"
  have R: "retained_indices detect subsample T u a = ?R a"
    by (rule retained_indices_cong) (simp add: Suc.prems(3))
  let ?u1 = "\<lambda>k' l n. if k' = a \<and> l < K \<and> n < length (?R a)
                   then u a l (?R a ! n) else u k' l n"
  let ?N1 = "N(a := length (?R a))"
  have st: "decorrelate_state detect subsample K T a (u, N) = Inr (?u1, ?N1)"
    using decorrelate_state_ok [of T detect subsample u a K N] Suc.prems(2) [of a] ab
    unfolding R by simp
  have unfold: "decorrelate detect subsample K T [a..<b] (u, N) =
                decorrelate detect subsample K T [Suc a..<b] (?u1, ?N1)"
    using ab by (simp add: upt_conv_Cons st)
  have rows: "?u1 k l n = u0 k l n" if "Suc a \<le> k" for k l n
    using that Suc.prems(3) [of k l n] by simp
  have accepted: "accepted_indices T (?R k)" if "Suc a \<le> k" "k < b" for k
    using that Suc.prems(2) [of k] by simp
  note IH = Suc.hyps(1) [OF c le accepted rows, of ?N1]
  have u_eq: "(\<lambda>k l n. if Suc a \<le> k \<and> k < b \<and> l < K \<and> n < length (?R k)
           then u0 k l (?R k ! n) else ?u1 k l n) =
          (\<lambda>k l n. if a \<le> k \<and> k < b \<and> l < K \<and> n < length (?R k)
           then u0 k l (?R k ! n) else u k l n)"
  proof (intro ext)
    fix k l n
    show "(if Suc a \<le> k \<and> k < b \<and> l < K \<and> n < length (?R k)
           then u0 k l (?R k ! n) else ?u1 k l n) =
          (if a \<le> k \<and> k < b \<and> l < K \<and> n < length (?R k)
           then u0 k l (?R k ! n) else u k l n)"
      using ab Suc.prems(3) [of a l] by (cases "k = a") auto
  qed
  have N_eq: "(\<lambda>k. if Suc a \<le> k \<and> k < b then length (?R k) else ?N1 k) =
          (\<lambda>k. if a \<le> k \<and> k < b then length (?R k) else N k)"
  proof (intro ext)
    fix k
    show "(if Suc a \<le> k \<and> k < b then length (?R k) else ?N1 k) =
          (if a \<le> k \<and> k < b then length (?R k) else N k)"
      using ab by (cases "k = a") auto
  qed
  have "decorrelate detect subsample K T [a..<b] (u, N) =
        decorrelate detect subsample K T [Suc a..<b] (?u1, ?N1)"
    by (rule unfold)
  also have "\<dots> = Inr (\<lambda>k l n. if Suc a \<le> k \<and> k < b \<and> l < K \<and> n < length (?R k)
           then u0 k l (?R k ! n) else ?u1 k l n,
           \<lambda>k. if Suc a \<le> k \<and> k < b then length (?R k) else ?N1 k)"
    by (rule IH)
  finally show ?case unfolding u_eq N_eq .
qed


lemma decorrelate_state_ignores_nequil:
  "decorrelate_state detect subsample K T k s =
   decorrelate_state (\<lambda>series. (0, fst (snd (detect series)), 0)) subsample K T k s"
  by (simp add: decorrelate_state_def case_prod_beta)

lemma decorrelation_ignores_nequil:
  "decorrelation detect subsample K T u =
   decorrelation (\<lambda>series. (0, fst (snd (detect series)), 0)) subsample K T u"
proof -
  have "decorrelate detect subsample K T ks s =
        decorrelate (\<lambda>series. (0, fst (snd (detect series)), 0)) subsample K T ks s" for ks s
  proof (induction ks arbitrary: s)
    case Nil
    then show ?case by simp
  next
    case (Cons k ks)
    show ?case
      using decorrelate_state_ignores_nequil [of detect subsample K T k s] Cons.IH
      by (simp split: sum.splits)
  qed
  then show ?thesis by (simp add: decorrelation_def)
qed

lemma decorrelation_eq:
  assumes "\<And>k. k < K \<Longrightarrow> accepted_indices T (retained_indices detect subsample T u k)"
  shows "decorrelation detect subsample K T u =
     Inr (\<lambda>k l n. if k < K \<and> l < K \<and> n < length (retained_indices detect subsample T u k)
                   then u k l (retained_indices detect subsample T u k ! n) else u k l n,
          \<lambda>k. if k < K then length (retained_indices detect subsample T u k) else 0)"
proof -
  let ?R = "\<lambda>k. retained_indices detect subsample T u k"
  have "decorrelation detect subsample K T u =
     Inr (\<lambda>k l n. if 0 \<le> k \<and> k < K \<and> l < K \<and> n < length (?R k)
                   then u k l (?R k ! n) else u k l n,
          \<lambda>k. if 0 \<le> k \<and> k < K then length (?R k) else 0)"
    unfolding decorrelation_def
    by (rule decorrelate_eq) (simp_all add: assms)
  then show ?thesis by simp
qed


lemma toy_retained:
  "retained_indices toy_detectEquilibration toy_subsampleCorrelatedData 3 toy_u_kln k = [0, 2]"
  by (simp add: retained_indices_def toy_subsampleCorrelatedData_def diagonal_series_def
      upt_conv_Cons)

lemma toy_accepted:
  "accepted_indices 3
     (retained_indices toy_detectEquilibration toy_subsampleCorrelatedData 3 toy_u_kln k)"
  by (simp add: toy_retained accepted_indices_def)

section \<open>Claims about the force-construction operations\<close>



text \<open>
  Claim C8, as the spec states it, fails on the code: no operation asserts that the
  system has exactly one NonbondedForce. With two NonbondedForce objects in the system
  every operation returns normally.
\<close>

theorem force_construction_duplicate_counterexample:
  "length (nonbonded_forces (toy_system @ [Nonbonded toy_nonbonded])) = 2 \<and>
   (\<exists>s. add_LJ_scaling (toy_system @ [Nonbonded toy_nonbonded]) [0, 1] [2, 3] 0 6 5 = Inr s) \<and>
   (\<exists>s. create_custom_LJ (toy_system @ [Nonbonded toy_nonbonded]) [0, 1] [2, 3] 5 6 = Inr s) \<and>
   (\<exists>s. add_lambda_elec (toy_system @ [Nonbonded toy_nonbonded]) [0, 1] 0 = Inr s) \<and>
   (\<exists>s. turn_off_nonbonded (toy_system @ [Nonbonded toy_nonbonded]) [0, 1] = Inr s)"
proof -
  let ?sys = "toy_system @ [Nonbonded toy_nonbonded]"
  have g: "get_nonbonded ?sys = Inr toy_nonbonded"
    by (simp add: get_nonbonded_def toy_system_def)
  have v: "valid_atoms [0, 1] toy_nonbonded"
    by (simp add: valid_atoms_def toy_nonbonded_def getNumParticles_def)
  have fg: "valid_force_group 6" "valid_force_group 5" by (simp_all add: valid_force_group_def)
  have "length (nonbonded_forces ?sys) = 2" by (simp add: toy_system_def)
  moreover have "\<exists>s. add_LJ_scaling ?sys [0, 1] [2, 3] 0 6 5 = Inr s"
    using add_LJ_scaling_eq [OF g fg] by blast
  moreover have "\<exists>s. create_custom_LJ ?sys [0, 1] [2, 3] 5 6 = Inr s"
    using create_custom_LJ_eq [OF g fg(2,1)] by blast
  moreover have "\<exists>s. add_lambda_elec ?sys [0, 1] 0 = Inr s"
    using add_lambda_elec_eq [OF g v] by blast
  moreover have "\<exists>s. turn_off_nonbonded ?sys [0, 1] = Inr s"
    using turn_off_nonbonded_eq [OF g v] by blast
  ultimately show ?thesis by blast
qed

text \<open>
  Claim C8, amended. Each operation indexes the list of the system's NonbondedForce
  objects at 0 and asserts nothing. For force groups of the engine (0..31) and lists of
  particle indices of the first NonbondedForce, each operation fails exactly when the
  system has no NonbondedForce, and then with IndexError; a system with more than one
  NonbondedForce makes no operation fail. Otherwise the engine's own checks raise: when
  the system has a NonbondedForce, \<open>add_LJ_scaling\<close> and \<open>create_custom_LJ\<close> fail for a
  force group outside 0..31, and \<open>add_lambda_elec\<close> and \<open>turn_off_nonbonded\<close> fail for a
  molecule index that is not a particle, with the engine's exception or the binding's
  OverflowError.
\<close>

theorem force_construction_failures:
  "(valid_force_group force_group_1 \<and> valid_force_group force_group_2 \<and>
    valid_arguments system molecule \<and> valid_arguments system solvent \<longrightarrow>
      (add_LJ_scaling system molecule solvent lambda_value force_group_1 force_group_2 = Inl e
         \<longleftrightarrow> nonbonded_forces system = [] \<and> e = IndexError) \<and>
      (create_custom_LJ system molecule solvent force_group_1 force_group_2 = Inl e
         \<longleftrightarrow> nonbonded_forces system = [] \<and> e = IndexError)) \<and>
   (valid_arguments system molecule \<longrightarrow>
      (add_lambda_elec system molecule lambda_value = Inl e
         \<longleftrightarrow> nonbonded_forces system = [] \<and> e = IndexError) \<and>
      (turn_off_nonbonded system molecule = Inl e
         \<longleftrightarrow> nonbonded_forces system = [] \<and> e = IndexError)) \<and>
   (nonbonded_forces system \<noteq> [] \<and>
    valid_arguments system molecule \<and> valid_arguments system solvent \<and>
    \<not> (valid_force_group force_group_1 \<and> valid_force_group force_group_2) \<longrightarrow>
      (\<exists>e'. add_LJ_scaling system molecule solvent lambda_value force_group_1 force_group_2
               = Inl e' \<and> (e' = OpenMMException \<or> e' = OverflowError)) \<and>
      (\<exists>e'. create_custom_LJ system molecule solvent force_group_1 force_group_2
               = Inl e' \<and> (e' = OpenMMException \<or> e' = OverflowError))) \<and>
   (nonbonded_forces system \<noteq> [] \<and> \<not> valid_arguments system molecule \<longrightarrow>
      (\<exists>e'. add_lambda_elec system molecule lambda_value = Inl e' \<and>
             (e' = OpenMMException \<or> e' = OverflowError)) \<and>
      (\<exists>e'. turn_off_nonbonded system molecule = Inl e' \<and>
             (e' = OpenMMException \<or> e' = OverflowError)))"
proof (intro conjI impI)
  assume v: "valid_force_group force_group_1 \<and> valid_force_group force_group_2 \<and>
             valid_arguments system molecule \<and> valid_arguments system solvent"
  then have n: "force_group_error force_group_1 = None" "force_group_error force_group_2 = None"
    by (simp_all add: force_group_error_valid)
  show "add_LJ_scaling system molecule solvent lambda_value force_group_1 force_group_2 = Inl e
          \<longleftrightarrow> nonbonded_forces system = [] \<and> e = IndexError"
    by (simp add: add_LJ_scaling_fails_iff n)
  show "create_custom_LJ system molecule solvent force_group_1 force_group_2 = Inl e
          \<longleftrightarrow> nonbonded_forces system = [] \<and> e = IndexError"
    by (simp add: create_custom_LJ_fails_iff n)
next
  assume v: "valid_arguments system molecule"
  show "add_lambda_elec system molecule lambda_value = Inl e
          \<longleftrightarrow> nonbonded_forces system = [] \<and> e = IndexError"
    using v by (auto simp: add_lambda_elec_fails_iff valid_arguments_def)
  show "turn_off_nonbonded system molecule = Inl e
          \<longleftrightarrow> nonbonded_forces system = [] \<and> e = IndexError"
    using v by (auto simp: turn_off_nonbonded_fails_iff valid_arguments_def)
next
  assume a: "nonbonded_forces system \<noteq> [] \<and>
             valid_arguments system molecule \<and> valid_arguments system solvent \<and>
             \<not> (valid_force_group force_group_1 \<and> valid_force_group force_group_2)"
  then obtain e' where
    e': "force_group_error force_group_1 = Some e' \<or>
         force_group_error force_group_1 = None \<and> force_group_error force_group_2 = Some e'"
    using force_group_error_valid [of force_group_1] force_group_error_valid [of force_group_2]
    by (cases "force_group_error force_group_1"; cases "force_group_error force_group_2") auto
  then have k: "e' = OpenMMException \<or> e' = OverflowError"
    using force_group_error_cases by blast
  have "add_LJ_scaling system molecule solvent lambda_value force_group_1 force_group_2 = Inl e'"
    using a e' by (simp add: add_LJ_scaling_fails_iff)
  then show "\<exists>e'. add_LJ_scaling system molecule solvent lambda_value force_group_1 force_group_2
               = Inl e' \<and> (e' = OpenMMException \<or> e' = OverflowError)"
    using k by blast
  have "create_custom_LJ system molecule solvent force_group_1 force_group_2 = Inl e'"
    using a e' by (simp add: create_custom_LJ_fails_iff)
  then show "\<exists>e'. create_custom_LJ system molecule solvent force_group_1 force_group_2
               = Inl e' \<and> (e' = OpenMMException \<or> e' = OverflowError)"
    using k by blast
next
  assume a: "nonbonded_forces system \<noteq> [] \<and> \<not> valid_arguments system molecule"
  then obtain nb rest where r: "nonbonded_forces system = nb # rest" "\<not> valid_atoms molecule nb"
    by (cases "nonbonded_forces system") (auto simp: valid_arguments_def)
  then have g: "get_nonbonded system = Inr nb" by (simp add: get_nonbonded_def)
  have i: "\<not> (\<forall>i\<in>set molecule. i < length (nb_particles nb))"
    using r(2) by (simp add: valid_atoms_def list_all_iff getNumParticles_def)
  obtain e1 where e1:
    "offset_particles molecule (addGlobalParameter nb ''lambda_electrostatics'' lambda_value)
       = Inl e1" "e1 = OpenMMException \<or> e1 = OverflowError"
    using i offset_particles_fail [of molecule
        "addGlobalParameter nb ''lambda_electrostatics'' lambda_value"]
    by (auto simp: addGlobalParameter_def)
  have "add_lambda_elec system molecule lambda_value = Inl e1"
    using g e1(1) by (simp add: add_lambda_elec_def)
  then show "\<exists>e'. add_lambda_elec system molecule lambda_value = Inl e' \<and>
             (e' = OpenMMException \<or> e' = OverflowError)"
    using e1(2) by blast
  obtain e2 where e2: "turn_off_particles molecule nb = Inl e2"
    "e2 = OpenMMException \<or> e2 = OverflowError"
    using i turn_off_particles_fail by blast
  have "turn_off_nonbonded system molecule = Inl e2"
    using g e2(1) by (simp add: turn_off_nonbonded_def)
  then show "\<exists>e'. turn_off_nonbonded system molecule = Inl e' \<and>
             (e' = OpenMMException \<or> e' = OverflowError)"
    using e2(2) by blast
qed

theorem force_construction_failures_witness:
  "valid_force_group 6 \<and> valid_force_group 5 \<and>
   valid_arguments [OtherForce ''HarmonicBondForce''] [0, 1] \<and>
   valid_arguments [OtherForce ''HarmonicBondForce''] [2, 3] \<and>
   add_LJ_scaling [OtherForce ''HarmonicBondForce''] [0, 1] [2, 3] 0 6 5 = Inl IndexError \<and>
   create_custom_LJ [OtherForce ''HarmonicBondForce''] [0, 1] [2, 3] 6 5 = Inl IndexError \<and>
   add_lambda_elec [OtherForce ''HarmonicBondForce''] [0, 1] 0 = Inl IndexError \<and>
   turn_off_nonbonded [OtherForce ''HarmonicBondForce''] [0, 1] = Inl IndexError \<and>
   nonbonded_forces toy_system \<noteq> [] \<and> \<not> valid_force_group 32 \<and>
   valid_arguments toy_system [0, 1] \<and> valid_arguments toy_system [2, 3] \<and>
   \<not> valid_arguments toy_system [0, 7] \<and>
   (\<exists>e'. add_LJ_scaling toy_system [0, 1] [2, 3] 0 32 5 = Inl e' \<and>
          (e' = OpenMMException \<or> e' = OverflowError)) \<and>
   (\<exists>e'. turn_off_nonbonded toy_system [0, 7] = Inl e' \<and>
          (e' = OpenMMException \<or> e' = OverflowError))"
proof -
  have g: "valid_force_group 6" "valid_force_group 5" "\<not> valid_force_group 32"
    by (simp_all add: valid_force_group_def)
  have a: "valid_arguments [OtherForce ''HarmonicBondForce''] [0, 1]"
    "valid_arguments [OtherForce ''HarmonicBondForce''] [2, 3]"
    by (simp_all add: valid_arguments_def)
  have n: "nonbonded_forces toy_system \<noteq> []" by (simp add: toy_system_def)
  have v: "\<not> valid_arguments toy_system [0, 7]"
    "valid_arguments toy_system [0, 1]" "valid_arguments toy_system [2, 3]"
    by (simp_all add: valid_arguments_def toy_system_def valid_atoms_def toy_nonbonded_def
        getNumParticles_def)
  have e: "nonbonded_forces [OtherForce ''HarmonicBondForce''] = []" by simp
  note none = force_construction_failures [where ?force_group_1.0 = 6 and ?force_group_2.0 = 5
        and system = "[OtherForce ''HarmonicBondForce'']" and molecule = "[0, 1]"
        and solvent = "[2, 3]" and lambda_value = 0 and e = IndexError]
  have i1: "add_LJ_scaling [OtherForce ''HarmonicBondForce''] [0, 1] [2, 3] 0 6 5 = Inl IndexError"
    "create_custom_LJ [OtherForce ''HarmonicBondForce''] [0, 1] [2, 3] 6 5 = Inl IndexError"
    using none [THEN conjunct1] g a e by simp_all
  have i2: "add_lambda_elec [OtherForce ''HarmonicBondForce''] [0, 1] 0 = Inl IndexError"
    "turn_off_nonbonded [OtherForce ''HarmonicBondForce''] [0, 1] = Inl IndexError"
    using none [THEN conjunct2, THEN conjunct1] a e by simp_all
  have i3: "\<exists>e'. add_LJ_scaling toy_system [0, 1] [2, 3] 0 32 5 = Inl e' \<and>
          (e' = OpenMMException \<or> e' = OverflowError)"
    using force_construction_failures [where ?force_group_1.0 = 32 and ?force_group_2.0 = 5
        and system = toy_system and molecule = "[0, 1]"
        and solvent = "[2, 3]" and lambda_value = 0 and e = IndexError,
        THEN conjunct2, THEN conjunct2, THEN conjunct1] g n v
    by simp
  have i4: "\<exists>e'. turn_off_nonbonded toy_system [0, 7] = Inl e' \<and>
          (e' = OpenMMException \<or> e' = OverflowError)"
    using force_construction_failures [where ?force_group_1.0 = 6 and ?force_group_2.0 = 5
        and system = toy_system and molecule = "[0, 7]"
        and solvent = "[2, 3]" and lambda_value = 0 and e = IndexError,
        THEN conjunct2, THEN conjunct2, THEN conjunct2] n v
    by simp
  from g a i1 i2 n v i3 i4 show ?thesis by simp
qed

text \<open>
  Claim C3, as the spec states it, fails on the code for a pair whose two sigma are both
  0: the expression divides the distance by their mean, so it has no value (the engine
  computes NaN), also with lambda_sterics set to 0. Below, \<open>add_LJ_scaling\<close> runs on a
  system of two such atoms, one in the molecule and one in the solvent.
\<close>

theorem softcore_expression_undefined_for_zero_sigma:
  "\<exists>intermol_LJ intramol_LJ.
     add_LJ_scaling [Nonbonded zero_sigma_pair] [0] [1] 1 6 5 =
       Inr ([Nonbonded zero_sigma_pair] @ [CustomNonbonded intermol_LJ, CustomBond intramol_LJ]) \<and>
     cn_particles intermol_LJ = [[0, 0], [0, 0]] \<and>
     pair_energy intermol_LJ
       (setParameter (parameter_values (cn_globals intermol_LJ)) ''lambda_sterics'' 0)
       (cn_particles intermol_LJ ! 0) (cn_particles intermol_LJ ! 1) (1/2) = None"
proof -
  have g: "get_nonbonded [Nonbonded zero_sigma_pair] = Inr zero_sigma_pair"
    by (simp add: get_nonbonded_def)
  have fg: "valid_force_group 6" "valid_force_group 5" by (simp_all add: valid_force_group_def)
  let ?f = "\<lparr>cn_energy = softcore_LJ_expression,
          cn_globals = softcore_globals 1,
          cn_per_particle = [''sigma'', ''epsilon''],
          cn_cutoff = nb_cutoff zero_sigma_pair, cn_method = CutoffPeriodic,
          cn_long_range = nb_dispersion zero_sigma_pair,
          cn_groups = [([0], [1])], cn_force_group = 6,
          cn_particles = map (\<lambda>p. [fst (snd p), snd (snd p)]) (nb_particles zero_sigma_pair),
          cn_exclusions = map (\<lambda>e. (fst e, fst (snd e))) (nb_exceptions zero_sigma_pair)\<rparr>"
  have p: "cn_particles ?f = [[0, 0], [0, 0]]" by (simp add: zero_sigma_pair_def)
  have "pair_energy ?f (setParameter (parameter_values (cn_globals ?f)) ''lambda_sterics'' 0)
          [0, 0] [0, 0] (1/2) = None"
    by (rule softcore_pair_energy_zero_sigma) simp_all
  then have "pair_energy ?f (setParameter (parameter_values (cn_globals ?f)) ''lambda_sterics'' 0)
          (cn_particles ?f ! 0) (cn_particles ?f ! 1) (1/2) = None"
    unfolding p by simp
  then show ?thesis
    using add_LJ_scaling_eq [OF g fg, of "[0]" "[1]" 1] p by blast
qed

text \<open>
  Claim C3, amended. The CustomNonbondedForce that \<open>add_LJ_scaling\<close> adds carries the
  soft-core expression (its text is the text of the notebook) and the global parameters
  lambda_sterics (at the value passed), softcore_a = 1, softcore_b = 1, softcore_c = 6 and
  softcore_alpha = 0.5. For a pair with sigma1 + sigma2 > 0 and epsilon1 * epsilon2 >= 0
  at a distance r > 0, with lambda_sterics set to l in [0, 1], the expression's value is
  l * 4 * epsilon * x * (x - 1) with x = (sigma / reff)^6 and
  reff = sigma * (0.5 * (1 - l) + (r / sigma)^6)^(1/6); with lambda_sterics set to 0 it
  is exactly 0 for every such pair and every r > 0.
\<close>

theorem softcore_expression_zero_at_lambda_zero:
  assumes "get_nonbonded system = Inr nonbonded"
    and "valid_force_group force_group_1" "valid_force_group force_group_2"
  shows "\<exists>intermol_LJ intramol_LJ.
           add_LJ_scaling system molecule solvent lambda_value force_group_1 force_group_2 =
             Inr (system @ [CustomNonbonded intermol_LJ, CustomBond intramol_LJ]) \<and>
           parsed_expression (cn_energy intermol_LJ) \<and>
           render_expression (cn_energy intermol_LJ) =
             ''(lambda_sterics^softcore_a)*4*epsilon*x*(x-1.0);'' @
             ''x=(sigma/reff_sterics)^6;'' @
             ''reff_sterics=sigma*((softcore_alpha*(1.0-lambda_sterics)^softcore_b+(r/sigma)^softcore_c))^(1/softcore_c);'' @
             ''sigma=0.5*(sigma1+sigma2);'' @
             ''epsilon=sqrt(epsilon1*epsilon2);'' \<and>
           cn_globals intermol_LJ =
             [(''lambda_sterics'', lambda_value), (''softcore_a'', 1), (''softcore_b'', 1),
              (''softcore_c'', 6), (''softcore_alpha'', 1/2)] \<and>
           cn_per_particle intermol_LJ = [''sigma'', ''epsilon''] \<and>
           (\<forall>l sigma1 epsilon1 sigma2 epsilon2 r.
              0 \<le> l \<and> l \<le> 1 \<and> 0 < r \<and> 0 < sigma1 + sigma2 \<and> 0 \<le> epsilon1 * epsilon2 \<longrightarrow>
              pair_energy intermol_LJ
                (setParameter (parameter_values (cn_globals intermol_LJ)) ''lambda_sterics'' l)
                [sigma1, epsilon1] [sigma2, epsilon2] r =
              Some (let epsilon = sqrt (epsilon1 * epsilon2);
                        sigma = (sigma1 + sigma2) / 2;
                        reff = sigma * root 6 ((1/2) * (1 - l) + (r / sigma) ^ 6);
                        x = (sigma / reff) ^ 6
                    in l * 4 * epsilon * x * (x - 1))) \<and>
           (\<forall>sigma1 epsilon1 sigma2 epsilon2 r.
              0 < r \<and> 0 < sigma1 + sigma2 \<and> 0 \<le> epsilon1 * epsilon2 \<longrightarrow>
              pair_energy intermol_LJ
                (setParameter (parameter_values (cn_globals intermol_LJ)) ''lambda_sterics'' 0)
                [sigma1, epsilon1] [sigma2, epsilon2] r = Some 0)"
proof -
  let ?f = "\<lparr>cn_energy = softcore_LJ_expression,
          cn_globals = softcore_globals lambda_value,
          cn_per_particle = [''sigma'', ''epsilon''],
          cn_cutoff = nb_cutoff nonbonded, cn_method = CutoffPeriodic,
          cn_long_range = nb_dispersion nonbonded,
          cn_groups = [(molecule, solvent)], cn_force_group = force_group_1,
          cn_particles = map (\<lambda>p. [fst (snd p), snd (snd p)]) (nb_particles nonbonded),
          cn_exclusions = map (\<lambda>e. (fst e, fst (snd e))) (nb_exceptions nonbonded)\<rparr>"
  have f: "cn_energy ?f = softcore_LJ_expression" "cn_globals ?f = softcore_globals lambda_value"
    "cn_per_particle ?f = [''sigma'', ''epsilon'']"
    by simp_all
  have form: "pair_energy ?f
                (setParameter (parameter_values (cn_globals ?f)) ''lambda_sterics'' l)
                [sigma1, epsilon1] [sigma2, epsilon2] r =
              Some (let epsilon = sqrt (epsilon1 * epsilon2);
                        sigma = (sigma1 + sigma2) / 2;
                        reff = sigma * root 6 ((1/2) * (1 - l) + (r / sigma) ^ 6);
                        x = (sigma / reff) ^ 6
                    in l * 4 * epsilon * x * (x - 1))"
    if "0 \<le> l \<and> l \<le> 1 \<and> 0 < r \<and> 0 < sigma1 + sigma2 \<and> 0 \<le> epsilon1 * epsilon2"
    for l sigma1 epsilon1 sigma2 epsilon2 r
    using that by (intro softcore_pair_energy [OF f]) simp_all
  have zero: "pair_energy ?f
                (setParameter (parameter_values (cn_globals ?f)) ''lambda_sterics'' 0)
                [sigma1, epsilon1] [sigma2, epsilon2] r = Some 0"
    if "0 < r \<and> 0 < sigma1 + sigma2 \<and> 0 \<le> epsilon1 * epsilon2"
    for sigma1 epsilon1 sigma2 epsilon2 r
    using that form [of 0 r sigma1 sigma2 epsilon1 epsilon2] by (simp add: Let_def)
  have g: "cn_globals ?f =
             [(''lambda_sterics'', lambda_value), (''softcore_a'', 1), (''softcore_b'', 1),
              (''softcore_c'', 6), (''softcore_alpha'', 1/2)]"
    by (simp add: softcore_globals_def)
  have t: "parsed_expression (cn_energy ?f)"
    "render_expression (cn_energy ?f) =
             ''(lambda_sterics^softcore_a)*4*epsilon*x*(x-1.0);'' @
             ''x=(sigma/reff_sterics)^6;'' @
             ''reff_sterics=sigma*((softcore_alpha*(1.0-lambda_sterics)^softcore_b+(r/sigma)^softcore_c))^(1/softcore_c);'' @
             ''sigma=0.5*(sigma1+sigma2);'' @
             ''epsilon=sqrt(epsilon1*epsilon2);''"
    unfolding f(1) by (rule softcore_LJ_expression_parsed, rule softcore_LJ_expression_text)
  from add_LJ_scaling_eq [OF assms, of molecule solvent lambda_value] t g f(3) form zero
  show ?thesis by blast
qed

theorem softcore_expression_zero_at_lambda_zero_witness:
  "get_nonbonded toy_system = Inr toy_nonbonded \<and>
   valid_force_group 6 \<and> valid_force_group 5 \<and>
   (\<exists>intermol_LJ intramol_LJ.
      add_LJ_scaling toy_system [0, 1] [2, 3] 1 6 5 =
        Inr (toy_system @ [CustomNonbonded intermol_LJ, CustomBond intramol_LJ]) \<and>
      pair_energy intermol_LJ
        (setParameter (parameter_values (cn_globals intermol_LJ)) ''lambda_sterics'' 0)
        [1, 1] [1, 1] (1/2) = Some 0)"
proof -
  have g: "valid_force_group 6" "valid_force_group 5" by (simp_all add: valid_force_group_def)
  have r: "(0::real) < 1/2 \<and> (0::real) < 1 + 1 \<and> (0::real) \<le> 1 * 1" by simp
  show ?thesis
    using softcore_expression_zero_at_lambda_zero [OF get_nonbonded_toy g, of "[0, 1]" "[2, 3]" 1]
      get_nonbonded_toy g r
    by blast
qed

text \<open>
  Claim C2. Let the system have a NonbondedForce without parameter offsets, and let the
  molecule be a list of distinct particle indices of it. Then \<open>add_lambda_elec\<close> followed
  by \<open>turn_off_nonbonded\<close> succeeds, and in the resulting NonbondedForce the effective charge
  of every solute atom is lambda_electrostatics times its original charge, and the
  effective charge product of every exception between two solute atoms is
  lambda_electrostatics times its original charge product: the original values at
  lambda_electrostatics = 1 and zero at lambda_electrostatics = 0.
\<close>

theorem lambda_elec_scales_charges:
  assumes nb: "get_nonbonded system = Inr nb"
    and valid: "valid_atoms molecule nb"
    and dist: "distinct molecule"
    and fresh: "nb_particle_offsets nb = []" "nb_exception_offsets nb = []"
  shows "\<exists>s1 s2 nb2.
           add_lambda_elec system molecule lambda_value = Inr s1 \<and>
           turn_off_nonbonded s1 molecule = Inr s2 \<and>
           get_nonbonded s2 = Inr nb2 \<and>
           (\<forall>P. \<forall>atom_i \<in> set molecule.
              effective_charge nb2 P atom_i =
                P ''lambda_electrostatics'' * fst (nb_particles nb ! atom_i) \<and>
              effective_charge nb2 (setParameter P ''lambda_electrostatics'' 1) atom_i =
                fst (nb_particles nb ! atom_i) \<and>
              effective_charge nb2 (setParameter P ''lambda_electrostatics'' 0) atom_i = 0) \<and>
           (\<forall>P. \<forall>exception_i < getNumExceptions nb.
              both_in molecule (nb_exceptions nb ! exception_i) \<longrightarrow>
              effective_chargeprod nb2 P exception_i =
                P ''lambda_electrostatics'' * fst (snd (snd (nb_exceptions nb ! exception_i))) \<and>
              effective_chargeprod nb2 (setParameter P ''lambda_electrostatics'' 1) exception_i =
                fst (snd (snd (nb_exceptions nb ! exception_i))) \<and>
              effective_chargeprod nb2 (setParameter P ''lambda_electrostatics'' 0) exception_i = 0)"
proof -
  let ?ex = "nb_exceptions nb"
  let ?ps = "nb_particles nb"
  let ?poff = "map (\<lambda>i. (''lambda_electrostatics'', i, fst (?ps ! i), 0::real, 0::real)) molecule"
  let ?eoff = "map (\<lambda>i. (''lambda_electrostatics'', i, fst (snd (snd (?ex ! i))), 0::real, 0::real))
                 (filter (\<lambda>i. both_in molecule (?ex ! i)) [0..<length ?ex])"
  let ?nb1 = "nb\<lparr>nb_globals := nb_globals nb @ [(''lambda_electrostatics'', lambda_value)],
                 nb_particle_offsets := nb_particle_offsets nb @ ?poff,
                 nb_exception_offsets := nb_exception_offsets nb @ ?eoff\<rparr>"
  let ?s1 = "put_nonbonded ?nb1 system"
  have s1: "add_lambda_elec system molecule lambda_value = Inr ?s1"
    by (rule add_lambda_elec_eq [OF nb valid])
  have g1: "get_nonbonded ?s1 = Inr ?nb1" by (rule get_nonbonded_put [OF nb])
  have v1: "valid_atoms molecule ?nb1"
    using valid by (simp add: valid_atoms_def getNumParticles_def)
  let ?ps2 = "map (\<lambda>i. if i \<in> set molecule then zero_particle (?ps ! i) else ?ps ! i)
                [0..<length ?ps]"
  let ?ex2 = "map (\<lambda>e. if both_in molecule e then zero_exception e else e) ?ex"
  let ?nb2 = "?nb1\<lparr>nb_particles := ?ps2, nb_exceptions := ?ex2\<rparr>"
  let ?s2 = "put_nonbonded ?nb2 ?s1"
  have s2: "turn_off_nonbonded ?s1 molecule = Inr ?s2"
    using turn_off_nonbonded_eq [OF g1 v1] by (simp cong: if_cong)
  have g2: "get_nonbonded ?s2 = Inr ?nb2" by (rule get_nonbonded_put [OF g1])
  have inr: "atom_i < length ?ps" if "atom_i \<in> set molecule" for atom_i
    using valid that by (simp add: valid_atoms_def list_all_iff getNumParticles_def)
  have ch: "effective_charge ?nb2 P atom_i = P ''lambda_electrostatics'' * fst (?ps ! atom_i)"
    if "atom_i \<in> set molecule" for P atom_i
  proof -
    have "(\<Sum>off \<leftarrow> ?poff. if fst (snd off) = atom_i then P (fst off) * fst (snd (snd off)) else 0)
          = (\<Sum>i \<leftarrow> molecule. if i = atom_i then P ''lambda_electrostatics'' * fst (?ps ! i) else 0)"
      by (simp add: comp_def cong: if_cong)
    also have "\<dots> = P ''lambda_electrostatics'' * fst (?ps ! atom_i)"
      using dist that by (rule sum_list_single)
    finally show ?thesis
      using that inr [OF that] fresh by (simp add: effective_charge_def zero_particle_def)
  qed
  have chp: "effective_chargeprod ?nb2 P k = P ''lambda_electrostatics'' * fst (snd (snd (?ex ! k)))"
    if "k < length ?ex" "both_in molecule (?ex ! k)" for P k
  proof -
    let ?is = "filter (\<lambda>i. both_in molecule (?ex ! i)) [0..<length ?ex]"
    have "(\<Sum>off \<leftarrow> ?eoff. if fst (snd off) = k then P (fst off) * fst (snd (snd off)) else 0)
          = (\<Sum>i \<leftarrow> ?is. if i = k then P ''lambda_electrostatics'' * fst (snd (snd (?ex ! i))) else 0)"
      by (simp add: comp_def cong: if_cong)
    also have "\<dots> = P ''lambda_electrostatics'' * fst (snd (snd (?ex ! k)))"
      using that by (intro sum_list_single) simp_all
    finally show ?thesis
      using that fresh by (simp add: effective_chargeprod_def zero_exception_def)
  qed
  have a: "\<forall>P. \<forall>atom_i \<in> set molecule.
              effective_charge ?nb2 P atom_i =
                P ''lambda_electrostatics'' * fst (?ps ! atom_i) \<and>
              effective_charge ?nb2 (setParameter P ''lambda_electrostatics'' 1) atom_i =
                fst (?ps ! atom_i) \<and>
              effective_charge ?nb2 (setParameter P ''lambda_electrostatics'' 0) atom_i = 0"
    using ch by (simp add: setParameter_def)
  have b: "\<forall>P. \<forall>exception_i < getNumExceptions nb.
              both_in molecule (?ex ! exception_i) \<longrightarrow>
              effective_chargeprod ?nb2 P exception_i =
                P ''lambda_electrostatics'' * fst (snd (snd (?ex ! exception_i))) \<and>
              effective_chargeprod ?nb2 (setParameter P ''lambda_electrostatics'' 1) exception_i =
                fst (snd (snd (?ex ! exception_i))) \<and>
              effective_chargeprod ?nb2 (setParameter P ''lambda_electrostatics'' 0) exception_i = 0"
    using chp by (simp add: setParameter_def getNumExceptions_def)
  from s1 s2 g2 a b show ?thesis by blast
qed

theorem lambda_elec_scales_charges_witness:
  "get_nonbonded toy_system = Inr toy_nonbonded \<and> valid_atoms [0, 1] toy_nonbonded \<and>
   distinct [0, 1 :: nat] \<and>
   nb_particle_offsets toy_nonbonded = [] \<and> nb_exception_offsets toy_nonbonded = [] \<and>
   (\<exists>s1 s2 nb2.
      add_lambda_elec toy_system [0, 1] 1 = Inr s1 \<and>
      turn_off_nonbonded s1 [0, 1] = Inr s2 \<and>
      get_nonbonded s2 = Inr nb2 \<and>
      effective_charge nb2 (\<lambda>name. 1/2) 0 = 1/4 \<and>
      effective_chargeprod nb2 (\<lambda>name. 1/2) 0 = - 1/8)"
proof -
  have v: "valid_atoms [0, 1] toy_nonbonded"
    by (simp add: valid_atoms_def toy_nonbonded_def getNumParticles_def)
  have d: "distinct [0, 1 :: nat]" by simp
  have f: "nb_particle_offsets toy_nonbonded = []" "nb_exception_offsets toy_nonbonded = []"
    by (simp_all add: toy_nonbonded_def)
  obtain s1 s2 nb2 where
    r: "add_lambda_elec toy_system [0, 1] 1 = Inr s1" "turn_off_nonbonded s1 [0, 1] = Inr s2"
       "get_nonbonded s2 = Inr nb2"
    and c: "\<forall>P. \<forall>atom_i \<in> set [0, 1].
              effective_charge nb2 P atom_i =
                P ''lambda_electrostatics'' * fst (nb_particles toy_nonbonded ! atom_i) \<and>
              effective_charge nb2 (setParameter P ''lambda_electrostatics'' 1) atom_i =
                fst (nb_particles toy_nonbonded ! atom_i) \<and>
              effective_charge nb2 (setParameter P ''lambda_electrostatics'' 0) atom_i = 0"
    and e: "\<forall>P. \<forall>exception_i < getNumExceptions toy_nonbonded.
              both_in [0, 1] (nb_exceptions toy_nonbonded ! exception_i) \<longrightarrow>
              effective_chargeprod nb2 P exception_i =
                P ''lambda_electrostatics'' * fst (snd (snd (nb_exceptions toy_nonbonded ! exception_i))) \<and>
              effective_chargeprod nb2 (setParameter P ''lambda_electrostatics'' 1) exception_i =
                fst (snd (snd (nb_exceptions toy_nonbonded ! exception_i))) \<and>
              effective_chargeprod nb2 (setParameter P ''lambda_electrostatics'' 0) exception_i = 0"
    using lambda_elec_scales_charges [OF get_nonbonded_toy v d f, of 1] by blast
  have "effective_charge nb2 (\<lambda>name. 1/2) 0 = 1/4"
    using c [rule_format, of 0 "\<lambda>name. 1/2"] by (simp add: toy_nonbonded_def)
  moreover have "effective_chargeprod nb2 (\<lambda>name. 1/2) 0 = - 1/8"
    using e [rule_format, of 0 "\<lambda>name. 1/2"]
    by (simp add: toy_nonbonded_def getNumExceptions_def both_in_def)
  ultimately show ?thesis using r v d f get_nonbonded_toy by blast
qed

section \<open>Claims about the energies\<close>

text \<open>
  Claim C1 does not hold of the code. \<open>add_LJ_scaling\<close> puts into the CustomBondForce a
  bond for every exception between two atoms of the molecule, and into the
  CustomNonbondedForce the pairs of one atom of the molecule and one of the solvent;
  \<open>turn_off_nonbonded\<close> then sets epsilon to 0 for the atoms of the molecule. Two atoms of
  the molecule that have no exception between them (atoms more than three bonds apart)
  interact in the original NonbondedForce and in none of the three forces afterwards:
  their Lennard-Jones energy is dropped, where the function's documentation says that
  the intramolecular Lennard-Jones energy is moved to the CustomBondForce. Below, a chain
  of five atoms and one solvent atom: the original energy is 64512; afterwards the
  soft-core energy at lambda_sterics = 1 is 32256 (the two pairs with the solvent atom
  that lie within the cutoff), the CustomBondForce energy is 16128 (the exceptions) and
  nothing is left in the NonbondedForce. The sum falls short of the original energy by
  16128, the energy of the pair of end atoms.
\<close>

theorem unexcepted_solute_pair_is_dropped:
  "\<exists>s1 nb2 intermol_LJ intramol_LJ.
     add_LJ_scaling [Nonbonded chain_in_solvent] [0, 1, 2, 3, 4] [5] 1 6 5 = Inr s1 \<and>
     turn_off_nonbonded s1 [0, 1, 2, 3, 4] =
       Inr [Nonbonded nb2, CustomNonbonded intermol_LJ, CustomBond intramol_LJ] \<and>
     nonbonded_LJ_energy chain_in_solvent chain_configuration = Some 64512 \<and>
     custom_nonbonded_energy intermol_LJ
        (setParameter (parameter_values (cn_globals intermol_LJ)) ''lambda_sterics'' 1)
        chain_configuration = Some 32256 \<and>
     custom_bond_energy intramol_LJ chain_configuration = Some 16128 \<and>
     nonbonded_LJ_energy nb2 chain_configuration = Some 0"
proof -
  let ?nb = chain_in_solvent
  let ?mol = "[0, 1, 2, 3, 4] :: nat list"
  let ?f = "\<lparr>cn_energy = softcore_LJ_expression,
          cn_globals = softcore_globals 1,
          cn_per_particle = [''sigma'', ''epsilon''],
          cn_cutoff = nb_cutoff ?nb, cn_method = CutoffPeriodic,
          cn_long_range = nb_dispersion ?nb,
          cn_groups = [(?mol, [5])], cn_force_group = 6,
          cn_particles = map (\<lambda>p. [fst (snd p), snd (snd p)]) (nb_particles ?nb),
          cn_exclusions = map (\<lambda>e. (fst e, fst (snd e))) (nb_exceptions ?nb)\<rparr>"
  let ?b = "\<lparr>cb_energy = bond_LJ_expression, cb_per_bond = [''sigma'', ''epsilon''],
          cb_force_group = 5,
          cb_bonds = map bond_of (filter (both_in ?mol) (nb_exceptions ?nb))\<rparr>"
  let ?nb2 = "?nb\<lparr>nb_particles :=
                 [(0, 1, 0), (0, 1, 0), (0, 1, 0), (0, 1, 0), (0, 1, 0), (0, 1, 1)],
      nb_exceptions :=
        [(0, 1, 0, 1, 0), (1, 2, 0, 1, 0), (2, 3, 0, 1, 0), (3, 4, 0, 1, 0),
         (0, 2, 0, 1, 0), (1, 3, 0, 1, 0), (2, 4, 0, 1, 0),
         (0, 3, 0, 1, 0), (1, 4, 0, 1, 0)]\<rparr>"
  have g: "get_nonbonded [Nonbonded ?nb] = Inr ?nb"
    by (simp add: get_nonbonded_def)
  have fg: "valid_force_group 6" "valid_force_group 5" by (simp_all add: valid_force_group_def)
  have g1: "get_nonbonded ([Nonbonded ?nb] @ [CustomNonbonded ?f, CustomBond ?b]) = Inr ?nb"
    by (simp add: get_nonbonded_def)
  have v: "valid_atoms ?mol ?nb"
    by (simp add: valid_atoms_def getNumParticles_def chain_in_solvent_def)
  have s1: "add_LJ_scaling [Nonbonded ?nb] ?mol [5] 1 6 5 =
              Inr ([Nonbonded ?nb] @ [CustomNonbonded ?f, CustomBond ?b])"
    by (rule add_LJ_scaling_eq [OF g fg])
  have s2: "turn_off_nonbonded ([Nonbonded ?nb] @ [CustomNonbonded ?f, CustomBond ?b]) ?mol
              = Inr [Nonbonded ?nb2, CustomNonbonded ?f, CustomBond ?b]"
    unfolding turn_off_nonbonded_eq [OF g1 v]
    by (simp add: chain_in_solvent_def upt_conv_Cons zero_particle_def zero_exception_def
        both_in_def)
  have o: "nonbonded_LJ_energy ?nb chain_configuration = Some 64512"
    by (simp add: chain_in_solvent_def nonbonded_LJ_energy_def getNumParticles_def
        particle_pairs_def upt_conv_Cons sum_values_def exception_pairs_def excluded_def
        pair_LJ_def lennard_jones_def chain_configuration_def)
  have r: "nonbonded_LJ_energy ?nb2 chain_configuration = Some 0"
    by (simp add: chain_in_solvent_def nonbonded_LJ_energy_def getNumParticles_def
        particle_pairs_def upt_conv_Cons sum_values_def exception_pairs_def excluded_def
        pair_LJ_def lennard_jones_def chain_configuration_def)
  define f where "f = ?f"
  have fs: "cn_energy f = softcore_LJ_expression" "cn_globals f = softcore_globals 1"
    "cn_per_particle f = [''sigma'', ''epsilon'']"
    by (simp_all add: f_def)
  have rt: "root 6 ((1/2 :: real) ^ 6) = 1/2"
    by (rule real_root_power_cancel) simp_all
  have pe: "pair_energy f (setParameter (parameter_values (cn_globals f)) ''lambda_sterics'' 1)
              [1, 1] [1, 1] (1/2) = Some 16128"
    using softcore_pair_energy [OF fs, of 1 "1/2" 1 1 1 1] rt by (simp add: Let_def)
  have fp: "cn_long_range f = False" "cn_method f = CutoffPeriodic" "cn_cutoff f = 9/10"
    "cn_groups f = [(?mol, [5])]"
    "cn_particles f = [[1, 1], [1, 1], [1, 1], [1, 1], [1, 1], [1, 1]]"
    "cn_exclusions f = [(0, 1), (1, 2), (2, 3), (3, 4), (0, 2), (1, 3), (2, 4), (0, 3), (1, 4)]"
    by (simp_all add: f_def chain_in_solvent_def)
  have "custom_nonbonded_energy f
        (setParameter (parameter_values (cn_globals f)) ''lambda_sterics'' 1)
        chain_configuration = Some 32256"
    unfolding custom_nonbonded_energy_def fp
    by (simp add: particle_pairs_def upt_conv_Cons sum_values_def in_groups_def excluded_def pe
        chain_configuration_def)
  then have e1: "custom_nonbonded_energy ?f
        (setParameter (parameter_values (cn_globals ?f)) ''lambda_sterics'' 1)
        chain_configuration = Some 32256"
    unfolding f_def .
  define b where "b = ?b"
  have bs: "cb_bonds b =
              [(0, 1, [1, 0]), (1, 2, [1, 0]), (2, 3, [1, 0]), (3, 4, [1, 0]),
               (0, 2, [1, 0]), (1, 3, [1, 0]), (2, 4, [1, 0]),
               (0, 3, [1, 1/2]), (1, 4, [1, 1/2])]"
    by (simp add: b_def chain_in_solvent_def both_in_def bond_of_def)
  have bv: "bond_energy b [1, e] r = Some (4 * e * ((1 / r) ^ 12 - (1 / r) ^ 6))"
    if "0 < r" for e r
    using bond_LJ_value [of b r 1 e] that by (simp add: b_def)
  have "custom_bond_energy b chain_configuration = Some 16128"
    unfolding custom_bond_energy_def bs by (simp add: bv sum_values_def chain_configuration_def)
  then have e2: "custom_bond_energy ?b chain_configuration = Some 16128"
    unfolding b_def .
  from s1 s2 o r e1 e2 show ?thesis by blast
qed

section \<open>Claims about sampling and decorrelation\<close>

text \<open>
  Claim C4. For every state index k, evaluation index l and production block n in range,
  the entry u_kln[k, l, n] is the potential energy, divided by kT, under lambda_values[l]
  of one microstate that does not depend on l: the microstate reached by the dynamics
  alone, stepping under lambda_values[k] (the control parameter is set to lambda_values[k]
  before every stepping block, whatever the inner loop left). The final microstate, and
  with it the whole trajectory, is the same for every potential-energy function, and the
  inner evaluation loop leaves the microstate as it found it.
\<close>

theorem energies_evaluated_on_sampled_microstate:
  assumes "k < length (lambda_values pr)" "l < length (lambda_values pr)"
    and "n < total_iterations pr"
  shows "snd (alchemical_production step potential pr ctx) k l n =
           potential (state_parameters pr (ctx_parameters ctx) l)
             (sampled_microstate step pr (ctx_parameters ctx) (ctx_microstate ctx) k n) / kT pr \<and>
         (\<forall>potential'. ctx_microstate (fst (alchemical_production step potential' pr ctx)) =
            state_start step pr (ctx_parameters ctx) (ctx_microstate ctx)
              (length (lambda_values pr))) \<and>
         (\<forall>k' n' l' ls c u.
            ctx_microstate (fst (evaluate_all potential pr k' n' l' ls (c, u))) = ctx_microstate c)"
proof -
  have start: "ctx_microstate ctx =
                 state_start step pr (ctx_parameters ctx) (ctx_microstate ctx) 0"
    by simp
  note R = alchemical_run_eq [of 0 pr ctx step "ctx_parameters ctx" "ctx_microstate ctx",
      OF _ start refl, simplified]
  have "snd (alchemical_production step potential pr ctx) k l n =
           potential (state_parameters pr (ctx_parameters ctx) l)
             (sampled_microstate step pr (ctx_parameters ctx) (ctx_microstate ctx) k n) / kT pr"
    unfolding alchemical_production_def using R [of potential zeros] assms by simp
  moreover have "ctx_microstate (fst (alchemical_production step potential' pr ctx)) =
            state_start step pr (ctx_parameters ctx) (ctx_microstate ctx)
              (length (lambda_values pr))" for potential'
    unfolding alchemical_production_def using R [of potential' zeros] by simp
  ultimately show ?thesis
    by (simp add: evaluate_all_microstate)
qed

theorem energies_evaluated_on_sampled_microstate_witness:
  "1 < length (lambda_values toy_protocol) \<and> 2 < length (lambda_values toy_protocol) \<and>
   1 < total_iterations toy_protocol \<and>
   snd (alchemical_production toy_step toy_potential toy_protocol toy_context) 1 2 1 = 9/4 \<and>
   ctx_microstate (fst (alchemical_production toy_step toy_potential toy_protocol toy_context)) = 23/2"
proof -
  have a: "1 < length (lambda_values toy_protocol)" "2 < length (lambda_values toy_protocol)"
    "1 < total_iterations toy_protocol"
    by (simp_all add: toy_protocol_def)
  have s1: "state_start toy_step toy_protocol (\<lambda>name. 0) 1 (Suc 0) = 1"
    by (simp add: toy_protocol_def toy_step_def state_parameters_def setParameter_def
        numeral_2_eq_2)
  have s2: "state_start toy_step toy_protocol (\<lambda>name. 0) 1 (Suc (Suc 0)) = 9/2"
    unfolding state_start.simps(2) [of _ _ _ _ "Suc 0"] s1
    by (simp add: toy_protocol_def toy_step_def state_parameters_def setParameter_def
        numeral_2_eq_2)
  have s3: "state_start toy_step toy_protocol (\<lambda>name. 0) 1 (Suc (Suc (Suc 0))) = 23/2"
    unfolding state_start.simps(2) [of _ _ _ _ "Suc (Suc 0)"] s2
    by (simp add: toy_protocol_def toy_step_def state_parameters_def setParameter_def
        numeral_2_eq_2)
  have m: "sampled_microstate toy_step toy_protocol (\<lambda>name. 0) 1 1 1 = 9/2"
    unfolding sampled_microstate_def One_nat_def s1
    by (simp add: toy_protocol_def toy_step_def state_parameters_def setParameter_def)
  have len: "length (lambda_values toy_protocol) = Suc (Suc (Suc 0))"
    by (simp add: toy_protocol_def)
  have "snd (alchemical_production toy_step toy_potential toy_protocol toy_context) 1 2 1 = 9/4"
    using energies_evaluated_on_sampled_microstate [OF a, of toy_step toy_potential toy_context]
      m
    by (simp add: toy_context_def toy_potential_def state_parameters_def setParameter_def
        toy_protocol_def)
  moreover have "ctx_microstate (fst (alchemical_production toy_step toy_potential toy_protocol toy_context)) = 23/2"
    using energies_evaluated_on_sampled_microstate [OF a, of toy_step toy_potential toy_context]
      s3
    by (simp add: toy_context_def len)
  ultimately show ?thesis using a by blast
qed




text \<open>
  Claim C5 does not hold of the code: the cell binds \<open>nequil\<close> and never uses it, and passes
  the whole diagonal series to the subsampling. What the cell computes depends on the
  result of \<open>detectEquilibration\<close> only through g (\<open>decorrelation_ignores_nequil\<close>). Below,
  two burn-in samples are detected and sample 0 is retained all the same.
\<close>

theorem burn_in_samples_retained:
  "\<exists>u' N_k.
     decorrelation toy_detectEquilibration toy_subsampleCorrelatedData 2 3 toy_u_kln
       = Inr (u', N_k) \<and>
     fst (toy_detectEquilibration (diagonal_series toy_u_kln 0 3)) = 2 \<and>
     retained_indices toy_detectEquilibration toy_subsampleCorrelatedData 3 toy_u_kln 0 = [0, 2] \<and>
     N_k 0 = 2 \<and> u' 0 0 0 = toy_u_kln 0 0 0"
  by (simp add: decorrelation_eq [OF toy_accepted] toy_retained toy_detectEquilibration_def)

section \<open>Claims about the notebook cells\<close>

lemma upper_amber: "upper ''amber'' = ''AMBER''"
  by (simp add: upper_def upper_char_def)

text \<open>
  Claim C9, as the spec states it, fails on the code: with a name that is neither GAFF nor
  SAGE, in a kernel where \<open>template\<close> is not bound, the selection cell itself raises
  NameError, at \<^verbatim>\<open>forcefield.registerTemplateGenerator(template.generator)\<close>.
\<close>

theorem unknown_force_field_counterexample:
  "names fresh_kernel ''template'' = None \<and>
   upper ''amber'' \<noteq> ''GAFF'' \<and> upper ''amber'' \<noteq> ''SAGE'' \<and>
   snd (force_field_selection_cell
          (bind_name ''off_mol'' (Obj ''Molecule CCO'')
            (bind_name ''forcefield_name'' (Str ''amber'') fresh_kernel))) =
     Some (NameError ''template'')"
  by (simp add: force_field_selection_cell_def select_template_def upper_amber bind_name_def
      print_line_def fresh_kernel_def)

text \<open>
  Claim C9, amended. When the force-field name, upper-cased, is neither GAFF nor SAGE, the
  selection cell constructs no template generator and prints the warning and the line
  "Using force field: ..."; in a kernel where \<open>template\<close> is not bound it then raises
  NameError for \<open>template\<close> in the selection cell itself, before any later cell runs.
\<close>

theorem unknown_force_field_raises_in_selection_cell:
  assumes "names s ''forcefield_name'' = Some (Str forcefield_name)"
    and "upper forcefield_name \<noteq> ''GAFF''" "upper forcefield_name \<noteq> ''SAGE''"
    and "names s ''template'' = None"
  shows "\<exists>s'. force_field_selection_cell s = (s', Some (NameError ''template'')) \<and>
           names s' ''template'' = None \<and>
           stdout s' = stdout s @ [''Unknow force field, cannot preceed.'',
                                   ''Using force field: '' @ forcefield_name]"
  using assms
  by (simp add: force_field_selection_cell_def select_template_def bind_name_def
      print_line_def Let_def)

theorem unknown_force_field_raises_in_selection_cell_witness:
  "names (bind_name ''forcefield_name'' (Str ''amber'') fresh_kernel) ''forcefield_name''
     = Some (Str ''amber'') \<and>
   upper ''amber'' \<noteq> ''GAFF'' \<and> upper ''amber'' \<noteq> ''SAGE'' \<and>
   names (bind_name ''forcefield_name'' (Str ''amber'') fresh_kernel) ''template'' = None \<and>
   (\<exists>s'. force_field_selection_cell (bind_name ''forcefield_name'' (Str ''amber'') fresh_kernel)
           = (s', Some (NameError ''template'')) \<and>
         stdout s' = [''Unknow force field, cannot preceed.'', ''Using force field: amber''])"
proof -
  let ?s = "bind_name ''forcefield_name'' (Str ''amber'') fresh_kernel"
  have a: "names ?s ''forcefield_name'' = Some (Str ''amber'')"
    and b: "upper ''amber'' \<noteq> ''GAFF''" and c: "upper ''amber'' \<noteq> ''SAGE''"
    and d: "names ?s ''template'' = None"
    by (simp_all add: bind_name_def fresh_kernel_def upper_amber)
  have e: "stdout ?s = []" by (simp add: bind_name_def fresh_kernel_def)
  obtain s' where "force_field_selection_cell ?s = (s', Some (NameError ''template''))"
    and "stdout s' = stdout ?s @ [''Unknow force field, cannot preceed.'',
                                  ''Using force field: '' @ ''amber'']"
    using unknown_force_field_raises_in_selection_cell [OF a b c d] by blast
  then have "\<exists>s'. force_field_selection_cell ?s = (s', Some (NameError ''template'')) \<and>
         stdout s' = [''Unknow force field, cannot preceed.'', ''Using force field: amber'']"
    using e by simp
  then show ?thesis using a b c d by blast
qed

text \<open>
  In a kernel where an earlier run left \<open>template\<close> bound, the cell registers that
  generator and raises nothing.
\<close>

lemma stale_template_is_registered:
  assumes "names s ''forcefield_name'' = Some (Str forcefield_name)"
    and "upper forcefield_name \<noteq> ''GAFF''" "upper forcefield_name \<noteq> ''SAGE''"
    and "names s ''template'' = Some (TemplateGenerator generator)"
  shows "\<exists>s'. force_field_selection_cell s = (s', None) \<and>
           names s' ''forcefield'' = Some (ForceField [''tip3p.xml''] [generator])"
  using assms
  by (simp add: force_field_selection_cell_def select_template_def bind_name_def
      print_line_def Let_def)

text \<open>
  Claim C10. The setup cell of the electrostatics notebook binds \<open>builf_folder\<close>, and the
  input-loading cell reads \<open>build_folder\<close>. In a kernel where \<open>build_folder\<close>, \<open>prmtop\<close> and
  \<open>system\<close> are not bound (a fresh kernel), a top-to-bottom run with the CUDA platform
  present stops at the input-loading cell with NameError for \<open>build_folder\<close>, whatever
  files exist, and no system has been constructed; without the platform the run stops one
  cell earlier, and no system has been constructed either.
\<close>

theorem electrostatics_notebook_fails_at_loading:
  assumes "names s ''build_folder'' = None"
    and "names s ''prmtop'' = None" "names s ''system'' = None"
  shows "(\<exists>s'. run_cells (electrostatics_notebook True readable) s =
                 (s', Some (NameError ''build_folder'')) \<and>
               names s' ''builf_folder'' = Some (Str ''build_files'') \<and>
               names s' ''build_folder'' = None \<and>
               names s' ''prmtop'' = None \<and> names s' ''system'' = None) \<and>
         (\<exists>s' e. run_cells (electrostatics_notebook cuda readable) s = (s', Some e) \<and>
               names s' ''system'' = None)"
proof -
  have t: "\<exists>s'. run_cells (electrostatics_notebook True readable) s =
                 (s', Some (NameError ''build_folder'')) \<and>
               names s' ''builf_folder'' = Some (Str ''build_files'') \<and>
               names s' ''build_folder'' = None \<and>
               names s' ''prmtop'' = None \<and> names s' ''system'' = None"
    using assms
    by (simp add: electrostatics_notebook_def setup_cell_def platform_cell_def
        input_loading_cell_def load_file_def bind_name_def Let_def)
  have f: "\<exists>s' e. run_cells (electrostatics_notebook False readable) s = (s', Some e) \<and>
               names s' ''system'' = None"
    using assms
    by (simp add: electrostatics_notebook_def setup_cell_def platform_cell_def
        bind_name_def Let_def)
  from t f show ?thesis by (cases cuda) auto
qed

theorem electrostatics_notebook_fails_at_loading_witness:
  "names fresh_kernel ''build_folder'' = None \<and> names fresh_kernel ''prmtop'' = None \<and>
   names fresh_kernel ''system'' = None \<and>
   (\<exists>s'. run_cells (electrostatics_notebook True (\<lambda>path. True)) fresh_kernel =
            (s', Some (NameError ''build_folder'')) \<and>
          names s' ''system'' = None)"
proof -
  have a: "names fresh_kernel ''build_folder'' = None" "names fresh_kernel ''prmtop'' = None"
    "names fresh_kernel ''system'' = None"
    by (simp_all add: fresh_kernel_def)
  show ?thesis
    using electrostatics_notebook_fails_at_loading [OF a, of "\<lambda>path. True" True] a by blast
qed

text \<open>With the name spelled as the input-loading cell reads it, the cells run.\<close>

lemma corrected_name_loads:
  "\<exists>s'. run_cells [input_loading_cell (\<lambda>path. True), atom_selection_cell, create_system_cell]
           (bind_name ''build_folder'' (Str ''build_files'') fresh_kernel) = (s', None) \<and>
         names s' ''system'' = Some (Obj ''System'')"
  by (simp add: input_loading_cell_def load_file_def atom_selection_cell_def
      create_system_cell_def bind_name_def fresh_kernel_def Let_def)

end
